theory Spec2Isabelle
  imports Complex_Main "HOL-Library.AList"
begin

section \<open>Conventions of the embedding\<close>

text \<open>
  The analytical core of the repository is Python over \<open>float\<close>, numpy arrays and pandas
  frames. The embedding reads every float as a \<^typ>\<open>real\<close> (no rounding, no \<open>inf\<close>, no
  \<open>nan\<close>); where the source would produce a non-finite value or raise, the model says so
  explicitly with an \<open>error\<close> value or an \<open>option\<close>. A numpy array and a pandas column are
  lists, a frame of bars is a list of \<open>bar\<close> records, a \<open>dict\<close> whose keys may be
  missing is a record of options, and a \<open>dict\<close> that is iterated is an association list
  in insertion order.
\<close>

datatype error = ZeroDivisionError | ValueError | IndexError | OverflowError

text \<open>Python's \<open>int(x)\<close> on a finite float: truncation toward zero.\<close>

definition py_int :: "real \<Rightarrow> int" where
  "py_int x = (if 0 \<le> x then \<lfloor>x\<rfloor> else \<lceil>x\<rceil>)"

text \<open>\<open>s.startswith(p)\<close> and the substring test \<open>sub in s\<close> on strings.\<close>

fun starts_with :: "string \<Rightarrow> string \<Rightarrow> bool" where
  "starts_with [] s = True"
| "starts_with (c # cs) [] = False"
| "starts_with (c # cs) (d # ds) = (c = d \<and> starts_with cs ds)"

fun py_in :: "string \<Rightarrow> string \<Rightarrow> bool" where
  "py_in sub [] = (sub = [])"
| "py_in sub (d # ds) = (starts_with sub (d # ds) \<or> py_in sub ds)"


section \<open>Decision engine: \<open>agents/portfolio_manager.py\<close>\<close>

subsection \<open>Risk configuration and the three input signals\<close>

record config =
  max_position_size :: real
  max_sector_exposure :: real
  max_correlation :: real
  max_drawdown :: real
  risk_per_trade :: real
  kelly_fraction :: real
  min_confidence :: real
  var_confidence :: real

definition default_config :: config where
  "default_config =
     \<lparr> max_position_size = 0.10, max_sector_exposure = 0.30, max_correlation = 0.85,
       max_drawdown = 0.15, risk_per_trade = 0.02, kelly_fraction = 0.25,
       min_confidence = 0.6, var_confidence = 0.95 \<rparr>"

text \<open>
  The inner dictionaries \<open>tape_reader_signal['final_signal']\<close>,
  \<open>chartist_signal['context']\<close> and \<open>macro_signal['macro_signal']\<close>. Every key is read
  with \<open>.get(key, default)\<close>, so every field is optional; the whole inner dictionary is
  optional too (\<open>.get('final_signal', {})\<close>), which is the \<open>option\<close> around the record in
  the arguments of \<open>aggregate_signals\<close>.
\<close>

record final_signal =
  fs_direction :: "string option"
  fs_confidence :: "real option"

record chartist_context =
  ctx_direction :: "string option"
  ctx_strength :: "real option"

record macro_signal =
  ms_direction :: "string option"
  ms_confidence :: "real option"
  ms_trading_allowed :: "bool option"

definition get_or :: "'a option \<Rightarrow> ('a \<Rightarrow> 'b option) \<Rightarrow> 'b \<Rightarrow> 'b" where
  "get_or d field dflt =
     (case d of None \<Rightarrow> dflt
      | Some r \<Rightarrow> (case field r of None \<Rightarrow> dflt | Some v \<Rightarrow> v))"

text \<open>The returned dictionary; a key that a branch does not set is \<open>None\<close>.\<close>

record aggregated =
  final_decision :: string
  reason :: "string option"
  agg_direction :: "string option"
  agg_confidence :: real
  position_size :: "real option"
  signal_strength :: "real option"
  agreement :: "string option"
  agent_signals :: "(string \<times> string \<times> real) list option"

subsection \<open>\<open>aggregate_signals\<close>\<close>

definition weight_tape_reader :: real where "weight_tape_reader = 0.40"
definition weight_chartist :: real where "weight_chartist = 0.35"
definition weight_macro :: real where "weight_macro = 0.25"

definition signal_map :: "string \<Rightarrow> real" where
  "signal_map d =
     (if d = ''bullish'' then 1 else if d = ''bullish_breakout'' then 1.2
      else if d = ''bearish'' then -1 else if d = ''bearish_breakout'' then -1.2
      else if d = ''neutral'' then 0 else if d = ''avoid'' then 0
      else 0)"

text \<open>\<open>sum(1 for _, d, c in signals if 'bullish' in d and c > 0.5)\<close>, and the bearish twin.\<close>

definition bullish_count :: "(string \<times> string \<times> real) list \<Rightarrow> nat" where
  "bullish_count signals =
     length (filter (\<lambda>(_, d, c). py_in ''bullish'' d \<and> c > 0.5) signals)"

definition bearish_count :: "(string \<times> string \<times> real) list \<Rightarrow> nat" where
  "bearish_count signals =
     length (filter (\<lambda>(_, d, c). py_in ''bearish'' d \<and> c > 0.5) signals)"

text \<open>
  The local \<open>total_signal\<close> after the agreement bonus (lines 168 to 188): the weighted
  sum, plus 0.2 when at least two sources count as bullish, else minus 0.2 when at least
  two count as bearish.
\<close>

definition weighted_sum :: "(string \<times> string \<times> real) list \<Rightarrow> real" where
  "weighted_sum signals =
     (case signals of
        [(_, tr_direction, tr_confidence), (_, ch_direction, ch_strength),
         (_, macro_direction, macro_confidence)] \<Rightarrow>
          signal_map tr_direction * tr_confidence * weight_tape_reader
          + signal_map ch_direction * ch_strength * weight_chartist
          + signal_map macro_direction * macro_confidence * weight_macro
      | _ \<Rightarrow> 0)"

definition total_signal :: "(string \<times> string \<times> real) list \<Rightarrow> real" where
  "total_signal signals =
     (if bullish_count signals \<ge> 2 then weighted_sum signals + 0.2
      else if bearish_count signals \<ge> 2 then weighted_sum signals - 0.2
      else weighted_sum signals)"

text \<open>The counts are at most three, so one digit prints them.\<close>

definition count_str :: "nat \<Rightarrow> string" where
  "count_str n = (if n = 0 then ''0'' else if n = 1 then ''1'' else if n = 2 then ''2'' else ''3'')"

definition aggregate_signals ::
  "config \<Rightarrow> final_signal option \<Rightarrow> chartist_context option \<Rightarrow> macro_signal option \<Rightarrow> aggregated" where
  "aggregate_signals cfg tape_reader_signal chartist_signal macro =
     (let tr_direction = get_or tape_reader_signal fs_direction ''neutral'';
          tr_confidence = get_or tape_reader_signal fs_confidence 0;
          ch_direction = get_or chartist_signal ctx_direction ''neutral'';
          ch_strength = get_or chartist_signal ctx_strength 0;
          macro_direction = get_or macro ms_direction ''neutral'';
          macro_confidence = get_or macro ms_confidence 0;
          trading_allowed = get_or macro ms_trading_allowed True
      in
      if \<not> trading_allowed then
        \<lparr> final_decision = ''no_trade'',
          reason = Some ''Volatility filter active - near high-impact event'',
          agg_direction = None, agg_confidence = 0, position_size = Some 0,
          signal_strength = None, agreement = None, agent_signals = None \<rparr>
      else
        let signals = [(''tape_reader'', tr_direction, tr_confidence),
                       (''chartist'', ch_direction, ch_strength),
                       (''macro'', macro_direction, macro_confidence)];
            total = total_signal signals;
            bulls = bullish_count signals;
            bears = bearish_count signals;
            avg_confidence = (tr_confidence + ch_strength + macro_confidence) / 3;
            (decision, direction, confidence) =
              (if \<bar>total\<bar> < 0.3 \<or> avg_confidence < min_confidence cfg
               then (''no_trade'', ''neutral'', avg_confidence)
               else if total > 0
               then (''long'', ''bullish'',
                     min 0.95 (avg_confidence + real_of_int (int bulls - 1) * 0.1))
               else (''short'', ''bearish'',
                     min 0.95 (avg_confidence + real_of_int (int bears - 1) * 0.1)))
        in
        \<lparr> final_decision = decision, reason = None,
          agg_direction = Some direction, agg_confidence = confidence,
          position_size = None, signal_strength = Some \<bar>total\<bar>,
          agreement = Some (count_str bulls @ '' bullish, '' @ count_str bears
                            @ '' bearish signals''),
          agent_signals = Some signals \<rparr>)"

subsection \<open>\<open>calculate_kelly_size\<close>\<close>

text \<open>
  The arguments are Python floats, so a division by a zero float raises
  \<open>ZeroDivisionError\<close>. The guard of line 224 returns before the first division when
  \<open>avg_loss\<close> is zero or \<open>win_rate\<close> is outside the open unit interval; the second
  division, by \<open>r\<close>, has no guard.
\<close>

definition calculate_kelly_size :: "config \<Rightarrow> real \<Rightarrow> real \<Rightarrow> real \<Rightarrow> error + real" where
  "calculate_kelly_size cfg win_rate avg_win avg_loss =
     (if avg_loss = 0 \<or> \<not> (0 < win_rate \<and> win_rate < 1) then Inr 0
      else
        let r = avg_win / avg_loss in
        if r = 0 then Inl ZeroDivisionError
        else
          let kelly = win_rate - ((1 - win_rate) / r) in
          Inr (min (max 0 (kelly * kelly_fraction cfg)) (max_position_size cfg)))"

subsection \<open>\<open>calculate_position_size\<close>\<close>

record position_sizing =
  ps_symbol :: string
  ps_units :: int
  ps_position_value :: real
  ps_position_pct :: real
  ps_risk_amount :: real
  ps_stop_loss :: real
  ps_stop_distance_pct :: real

text \<open>
  \<open>equity\<close> is \<open>self.portfolio['equity']\<close>. The divisions are by \<open>stop_distance\<close>, by
  \<open>equity\<close> and by \<open>entry_price\<close> (twice); each raises on a zero divisor, in the order
  of the source.
\<close>

definition calculate_position_size ::
  "config \<Rightarrow> real \<Rightarrow> string \<Rightarrow> real \<Rightarrow> real \<Rightarrow> real \<Rightarrow> error + position_sizing" where
  "calculate_position_size cfg equity symbol entry_price stop_loss confidence =
     (let risk_amount = equity * risk_per_trade cfg * confidence;
          stop_distance0 = \<bar>entry_price - stop_loss\<bar>;
          stop_distance = (if stop_distance0 = 0 then entry_price * 0.01 else stop_distance0)
      in
      if stop_distance = 0 then Inl ZeroDivisionError
      else
        let units = risk_amount / stop_distance;
            position_value = units * entry_price
        in
        if equity = 0 then Inl ZeroDivisionError
        else
          let position_pct = position_value / equity;
              capped = (position_pct > max_position_size cfg)
          in
          if entry_price = 0 then Inl ZeroDivisionError
          else
            let position_pct' = (if capped then max_position_size cfg else position_pct);
                position_value' = (if capped then equity * position_pct' else position_value);
                units' = (if capped then position_value' / entry_price else units)
            in
            Inr \<lparr> ps_symbol = symbol, ps_units = py_int units',
                  ps_position_value = position_value', ps_position_pct = position_pct',
                  ps_risk_amount = risk_amount, ps_stop_loss = stop_loss,
                  ps_stop_distance_pct = (stop_distance / entry_price) * 100 \<rparr>)"


section \<open>Order-flow analyzer: \<open>data/order_flow.py\<close>\<close>

subsection \<open>Bars and series\<close>

text \<open>
  One row of an OHLCV frame. A frame is a list of rows in index order; the model covers
  frames that carry all six columns.
\<close>

record bar =
  timestamp :: real
  bar_open :: real
  high :: real
  low :: real
  close :: real
  volume :: real

text \<open>
  \<open>Series.tail(n)\<close> for \<open>n \<ge> 0\<close> (the last \<open>n\<close> entries, all of them when the series
  is shorter, none when \<open>n = 0\<close>), and the positional reads \<open>.iloc[0]\<close> and \<open>.iloc[-1]\<close>,
  which raise \<open>IndexError\<close> on an empty series.
\<close>

definition tail :: "nat \<Rightarrow> 'a list \<Rightarrow> 'a list" where
  "tail n xs = drop (length xs - n) xs"

definition iloc_first :: "'a list \<Rightarrow> error + 'a" where
  "iloc_first xs = (case xs of [] \<Rightarrow> Inl IndexError | x # _ \<Rightarrow> Inr x)"

definition iloc_last :: "'a list \<Rightarrow> error + 'a" where
  "iloc_last xs = (if xs = [] then Inl IndexError else Inr (last xs))"

fun cumsum_from :: "real \<Rightarrow> real list \<Rightarrow> real list" where
  "cumsum_from acc [] = []"
| "cumsum_from acc (x # xs) = (acc + x) # cumsum_from (acc + x) xs"

definition cumsum :: "real list \<Rightarrow> real list" where
  "cumsum xs = cumsum_from 0 xs"

text \<open>
  \<open>Series.std()\<close>: the sample standard deviation (\<open>ddof = 1\<close>). With fewer than two
  entries pandas yields \<open>nan\<close>, here \<open>None\<close>.
\<close>

definition mean :: "real list \<Rightarrow> real" where
  "mean xs = sum_list xs / real (length xs)"

definition series_std :: "real list \<Rightarrow> real option" where
  "series_std xs =
     (if length xs < 2 then None
      else Some (sqrt (sum_list (map (\<lambda>x. (x - mean xs)\<^sup>2) xs) / real (length xs - 1))))"

subsection \<open>Signals\<close>

datatype signal_type = BULLISH | BEARISH | NEUTRAL

datatype pattern_type = ABSORPTION | EXHAUSTION | CONTINUATION | IMBALANCE

text \<open>The \<open>.value\<close> of the two enums.\<close>

fun signal_type_value :: "signal_type \<Rightarrow> string" where
  "signal_type_value BULLISH = ''bullish''"
| "signal_type_value BEARISH = ''bearish''"
| "signal_type_value NEUTRAL = ''neutral''"

fun pattern_type_value :: "pattern_type \<Rightarrow> string" where
  "pattern_type_value ABSORPTION = ''absorption''"
| "pattern_type_value EXHAUSTION = ''exhaustion''"
| "pattern_type_value CONTINUATION = ''continuation''"
| "pattern_type_value IMBALANCE = ''imbalance''"

record order_flow_signal =
  signal_type :: signal_type
  pattern :: pattern_type
  confidence :: real
  delta :: real
  cumulative_delta :: real
  description :: string
  ofs_timestamp :: int

subsection \<open>\<open>estimate_delta_from_ohlcv\<close>\<close>

text \<open>The frame it returns: each bar with the derived columns.\<close>

record delta_bar =
  db_bar :: bar
  db_body :: real
  db_upper_wick :: real
  db_lower_wick :: real
  db_range :: real
  db_body_ratio :: real
  db_estimated_delta :: real
  db_cumulative_delta :: real
  db_delta_strength :: "string option"

text \<open>
  \<open>pd.cut(x, bins=[0, 0.5 s, 1.5 s, inf], labels=['weak', 'moderate', 'strong'])\<close> for a
  positive finite \<open>s\<close>: the intervals are open on the left and closed on the right, and a
  value outside all of them (here only 0) gets \<open>nan\<close>, which is \<open>None\<close>.
\<close>

definition cut_strength :: "real \<Rightarrow> real \<Rightarrow> string option" where
  "cut_strength delta_std x =
     (if x \<le> 0 then None
      else if x \<le> delta_std * 0.5 then Some ''weak''
      else if x \<le> delta_std * 1.5 then Some ''moderate''
      else Some ''strong'')"

definition estimated_delta_of :: "bar \<Rightarrow> real" where
  "estimated_delta_of b =
     (let body = close b - bar_open b;
          rng = high b - low b;
          body_ratio = body / (if rng = 0 then 1 else rng)
      in body_ratio * volume b)"

text \<open>
  \<open>pd.cut\<close> raises \<open>ValueError\<close> unless the bin edges increase and are unique. With
  fewer than two bars the standard deviation is \<open>nan\<close> and the edges are
  \<open>[0, nan, nan, inf]\<close>; with a standard deviation of zero they are \<open>[0, 0, 0, inf]\<close>.
  Both are refused, so the function raises on every frame of fewer than two bars, the
  empty one included. (An empty frame without the columns, which is what \<open>fetch_bars\<close>
  returns for no data, raises \<open>KeyError\<close> already at line 108: every model of the empty
  frame raises.)
\<close>

definition estimate_delta_from_ohlcv :: "bar list \<Rightarrow> error + delta_bar list" where
  "estimate_delta_from_ohlcv bars =
     (let deltas = map estimated_delta_of bars;
          cums = cumsum deltas
      in case series_std deltas of
           None \<Rightarrow> Inl ValueError
         | Some delta_std \<Rightarrow>
             if delta_std = 0 then Inl ValueError
             else Inr (map (\<lambda>(b, c).
                    let body = close b - bar_open b;
                        rng = high b - low b;
                        body_ratio = body / (if rng = 0 then 1 else rng)
                    in \<lparr> db_bar = b, db_body = body,
                         db_upper_wick = high b - max (bar_open b) (close b),
                         db_lower_wick = min (bar_open b) (close b) - low b,
                         db_range = rng, db_body_ratio = body_ratio,
                         db_estimated_delta = body_ratio * volume b,
                         db_cumulative_delta = c,
                         db_delta_strength = cut_strength delta_std \<bar>body_ratio * volume b\<bar> \<rparr>)
                  (zip bars cums)))"

subsection \<open>\<open>analyze_effort_vs_result\<close>\<close>

definition analyze_effort_vs_result :: "real \<Rightarrow> string \<Rightarrow> string \<Rightarrow> order_flow_signal" where
  "analyze_effort_vs_result dlt candle_type delta_strength =
     (let is_bullish_delta = (dlt > 0);
          is_bearish_delta = (dlt < 0);
          is_bullish_candle = (candle_type = ''bullish'');
          is_bearish_candle = (candle_type = ''bearish'')
      in
      if is_bearish_delta \<and> is_bullish_candle \<and> delta_strength = ''strong'' then
        \<lparr> signal_type = BULLISH, pattern = ABSORPTION, confidence = 0.85, delta = dlt,
          cumulative_delta = 0,
          description = ''BULLISH: Strong seller absorption - buyers absorbing all sell orders'',
          ofs_timestamp = 0 \<rparr>
      else if is_bullish_delta \<and> is_bearish_candle \<and> delta_strength = ''strong'' then
        \<lparr> signal_type = BEARISH, pattern = ABSORPTION, confidence = 0.85, delta = dlt,
          cumulative_delta = 0,
          description = ''BEARISH: Strong buyer absorption - sellers absorbing all buy orders'',
          ofs_timestamp = 0 \<rparr>
      else if is_bullish_delta \<and> is_bullish_candle then
        \<lparr> signal_type = BULLISH, pattern = CONTINUATION, confidence = 0.65, delta = dlt,
          cumulative_delta = 0,
          description = ''BULLISH CONTINUATION: Buying pressure confirmed by price'',
          ofs_timestamp = 0 \<rparr>
      else if is_bearish_delta \<and> is_bearish_candle then
        \<lparr> signal_type = BEARISH, pattern = CONTINUATION, confidence = 0.65, delta = dlt,
          cumulative_delta = 0,
          description = ''BEARISH CONTINUATION: Selling pressure confirmed by price'',
          ofs_timestamp = 0 \<rparr>
      else
        \<lparr> signal_type = NEUTRAL, pattern = CONTINUATION, confidence = 0.3, delta = dlt,
          cumulative_delta = 0,
          description = ''NEUTRAL: Weak or mixed signals'',
          ofs_timestamp = 0 \<rparr>)"

subsection \<open>\<open>detect_delta_exhaustion\<close>\<close>

text \<open>The constant \<open>1e-10\<close> added to the denominator.\<close>

definition eps :: real where
  "eps = 1 / 10 ^ 10"

text \<open>
  The two blocks of lines 246 to 257 and 260 to 271. Each yields a signal or falls
  through; \<open>latest\<close> is \<open>recent_delta.iloc[-1]\<close> and \<open>final\<close> is
  \<open>cumulative_delta.iloc[-1]\<close>.
\<close>

definition bearish_exhaustion :: "real \<Rightarrow> real \<Rightarrow> real \<Rightarrow> real \<Rightarrow> order_flow_signal option" where
  "bearish_exhaustion delta_trend price_trend latest final =
     (if price_trend > 0 \<and> delta_trend < 0 then
        let divergence_strength = \<bar>delta_trend\<bar> / (\<bar>price_trend\<bar> + eps) in
        if divergence_strength > 0.5 then
          Some \<lparr> signal_type = BEARISH, pattern = EXHAUSTION,
                 confidence = min 0.9 (0.5 + divergence_strength * 0.4),
                 delta = latest, cumulative_delta = final,
                 description = ''BEARISH EXHAUSTION: Price rising but buying pressure fading'',
                 ofs_timestamp = 0 \<rparr>
        else None
      else None)"

definition bullish_exhaustion :: "real \<Rightarrow> real \<Rightarrow> real \<Rightarrow> real \<Rightarrow> order_flow_signal option" where
  "bullish_exhaustion delta_trend price_trend latest final =
     (if price_trend < 0 \<and> delta_trend > 0 then
        let divergence_strength = \<bar>delta_trend\<bar> / (\<bar>price_trend\<bar> + eps) in
        if divergence_strength > 0.5 then
          Some \<lparr> signal_type = BULLISH, pattern = EXHAUSTION,
                 confidence = min 0.9 (0.5 + divergence_strength * 0.4),
                 delta = latest, cumulative_delta = final,
                 description = ''BULLISH EXHAUSTION: Price falling but selling pressure fading'',
                 ofs_timestamp = 0 \<rparr>
        else None
      else None)"

definition detect_delta_exhaustion ::
  "real list \<Rightarrow> real list \<Rightarrow> nat \<Rightarrow> error + order_flow_signal option" where
  "detect_delta_exhaustion cumulative_delta_series price lookback =
     (if length cumulative_delta_series < lookback then Inr None
      else
        let recent_delta = tail lookback cumulative_delta_series;
            recent_price = tail lookback price
        in
        case (iloc_last recent_delta, iloc_first recent_delta,
              iloc_last recent_price, iloc_first recent_price) of
          (Inr delta_last, Inr delta_first, Inr price_last, Inr price_first) \<Rightarrow>
            let delta_trend = delta_last - delta_first;
                price_trend = price_last - price_first
            in
            (case bearish_exhaustion delta_trend price_trend delta_last
                    (last cumulative_delta_series) of
               Some s \<Rightarrow> Inr (Some s)
             | None \<Rightarrow>
                 Inr (bullish_exhaustion delta_trend price_trend delta_last
                        (last cumulative_delta_series)))
        | _ \<Rightarrow> Inl IndexError)"

subsection \<open>\<open>analyze_orderflow\<close>\<close>

record signal_summary =
  ss_type :: string
  ss_pattern :: string
  ss_confidence :: real
  ss_description :: string

record exhaustion_summary =
  ex_detected :: bool
  ex_type :: "string option"
  ex_confidence :: real
  ex_description :: "string option"

record orderflow_analysis =
  oa_current_delta :: real
  oa_cumulative_delta :: real
  oa_delta_strength :: string
  oa_candle_type :: string
  oa_signal :: signal_summary
  oa_exhaustion :: exhaustion_summary
  oa_delta_history :: "real list"
  oa_cumulative_delta_history :: "real list"

definition analyze_orderflow :: "bar list \<Rightarrow> error + orderflow_analysis" where
  "analyze_orderflow bars0 =
     (case estimate_delta_from_ohlcv bars0 of
        Inl e \<Rightarrow> Inl e
      | Inr bars \<Rightarrow>
          (case iloc_last bars of
             Inl e \<Rightarrow> Inl e
           | Inr latest \<Rightarrow>
               let candle_type = (if close (db_bar latest) > bar_open (db_bar latest)
                                  then ''bullish'' else ''bearish'');
                   delta_strength = (case db_delta_strength latest of
                                       Some l \<Rightarrow> l | None \<Rightarrow> ''moderate'');
                   signal = (analyze_effort_vs_result (db_estimated_delta latest)
                               candle_type delta_strength)
                            \<lparr> cumulative_delta := db_cumulative_delta latest \<rparr>
               in
               (case detect_delta_exhaustion (map db_cumulative_delta bars)
                       (map (close \<circ> db_bar) bars) 10 of
                  Inl e \<Rightarrow> Inl e
                | Inr exhaustion \<Rightarrow>
                    Inr \<lparr> oa_current_delta = db_estimated_delta latest,
                          oa_cumulative_delta = db_cumulative_delta latest,
                          oa_delta_strength = delta_strength,
                          oa_candle_type = candle_type,
                          oa_signal =
                            \<lparr> ss_type = signal_type_value (signal_type signal),
                              ss_pattern = pattern_type_value (pattern signal),
                              ss_confidence = confidence signal,
                              ss_description = description signal \<rparr>,
                          oa_exhaustion =
                            \<lparr> ex_detected = (exhaustion \<noteq> None),
                              ex_type = map_option (signal_type_value \<circ> signal_type) exhaustion,
                              ex_confidence = (case exhaustion of
                                                 Some x \<Rightarrow> confidence x | None \<Rightarrow> 0),
                              ex_description = map_option description exhaustion \<rparr>,
                          oa_delta_history = tail 20 (map db_estimated_delta bars),
                          oa_cumulative_delta_history =
                            tail 20 (map db_cumulative_delta bars) \<rparr>)))"


section \<open>Tape reader: \<open>agents/tape_reader.py\<close>\<close>

text \<open>
  \<open>TapeReaderAgent.analyze_symbol\<close> is the caller that fans the order-flow analysis out.
  Its whole body runs inside \<open>try: ... except Exception\<close>. The bar source
  (\<open>data_fetcher.fetch_bars\<close>) is outside the core: its outcome, a frame or an exception,
  is the argument \<open>fetched\<close>; \<open>now\<close> is the text of \<open>datetime.now().isoformat()\<close>. A
  message is a literal or \<open>str(e)\<close> of the exception caught.
\<close>

datatype message = Literal string | StrOf error

record final_signal_out =
  fso_direction :: string
  fso_confidence :: real
  fso_action :: string

record symbol_analysis =
  sa_symbol :: string
  sa_status :: string
  sa_message :: "message option"
  sa_agent :: "string option"
  sa_timestamp :: "string option"
  sa_analysis :: "orderflow_analysis option"
  sa_priority :: "string option"
  sa_final_signal :: "final_signal_out option"

definition determine_action :: "string \<Rightarrow> real \<Rightarrow> string" where
  "determine_action sig conf =
     (if conf < 0.5 then ''wait''
      else if sig = ''bullish'' then (if conf < 0.75 then ''consider_long'' else ''strong_long'')
      else if sig = ''bearish'' then (if conf < 0.75 then ''consider_short'' else ''strong_short'')
      else ''wait'')"

definition analyze_symbol :: "string \<Rightarrow> error + bar list \<Rightarrow> string \<Rightarrow> symbol_analysis" where
  "analyze_symbol symbol fetched now =
     (case fetched of
        Inl e \<Rightarrow>
          \<lparr> sa_symbol = symbol, sa_status = ''error'', sa_message = Some (StrOf e),
            sa_agent = Some ''tape_reader'', sa_timestamp = None, sa_analysis = None,
            sa_priority = None, sa_final_signal = None \<rparr>
      | Inr bars \<Rightarrow>
          if bars = [] then
            \<lparr> sa_symbol = symbol, sa_status = ''error'',
              sa_message = Some (Literal ''No data available''),
              sa_agent = None, sa_timestamp = None, sa_analysis = None,
              sa_priority = None, sa_final_signal = None \<rparr>
          else
            (case analyze_orderflow bars of
               Inl e \<Rightarrow>
                 \<lparr> sa_symbol = symbol, sa_status = ''error'', sa_message = Some (StrOf e),
                   sa_agent = Some ''tape_reader'', sa_timestamp = None, sa_analysis = None,
                   sa_priority = None, sa_final_signal = None \<rparr>
             | Inr analysis \<Rightarrow>
                 let signal_confidence = ss_confidence (oa_signal analysis);
                     exhaustion_confidence =
                       (if ex_detected (oa_exhaustion analysis)
                        then ex_confidence (oa_exhaustion analysis) else 0);
                     (final_sig, final_confidence, priority) =
                       (if ex_detected (oa_exhaustion analysis) then
                          (case ex_type (oa_exhaustion analysis) of
                             Some t \<Rightarrow> t | None \<Rightarrow> ''None'',
                           max signal_confidence exhaustion_confidence, ''high'')
                        else if ss_pattern (oa_signal analysis) = ''absorption'' then
                          (ss_type (oa_signal analysis), signal_confidence, ''high'')
                        else
                          (ss_type (oa_signal analysis), signal_confidence,
                           if signal_confidence > 0.6 then ''medium'' else ''low''))
                 in
                 \<lparr> sa_symbol = symbol, sa_status = ''success'', sa_message = None,
                   sa_agent = Some ''tape_reader'', sa_timestamp = Some now,
                   sa_analysis = Some analysis, sa_priority = Some priority,
                   sa_final_signal =
                     Some \<lparr> fso_direction = final_sig, fso_confidence = final_confidence,
                            fso_action = determine_action final_sig final_confidence \<rparr> \<rparr>))"


section \<open>Volume profile builder: \<open>data/volume_profile.py\<close>\<close>

datatype market_regime = TRENDING_UP | TRENDING_DOWN | RANGING | BREAKOUT

text \<open>
  \<open>VolumeProfileResult\<close>. The \<open>profile\<close> dictionary is kept as an association list in
  insertion order, with one entry per key.
\<close>

record volume_profile_result =
  poc :: real
  vah :: real
  val :: real
  hvn :: "real list"
  lvn :: "real list"
  profile :: "(real \<times> real) list"
  regime :: market_regime
  current_position :: string

subsection \<open>numpy helpers\<close>

text \<open>
  \<open>np.linspace(start, stop, num)\<close> over the reals: \<open>num\<close> points, the \<open>i\<close>-th at
  \<open>start + i * (stop - start) / (num - 1)\<close>.
\<close>

definition linspace :: "real \<Rightarrow> real \<Rightarrow> nat \<Rightarrow> real list" where
  "linspace start stop num =
     map (\<lambda>i. start + real i * ((stop - start) / real (num - 1))) [0..<num]"

text \<open>\<open>np.clip(a, lo, hi)\<close> is \<open>minimum(maximum(a, lo), hi)\<close>.\<close>

definition clip :: "int \<Rightarrow> int \<Rightarrow> int \<Rightarrow> int" where
  "clip a lo hi = min (max a lo) hi"

text \<open>
  \<open>((x - price_min) / bin_size).astype(int)\<close>. The division is numpy's: by a zero
  \<open>bin_size\<close> it yields \<open>nan\<close> or an infinity and does not raise, and the cast of a
  non-finite float to \<open>int64\<close> gives the least \<open>int64\<close>. A finite quotient is truncated
  toward zero.
\<close>

definition astype_int_quotient :: "real \<Rightarrow> real \<Rightarrow> int" where
  "astype_int_quotient x d = (if d = 0 then - (2 ^ 63) else py_int (x / d))"

text \<open>
  \<open>a[s:e1] += x\<close> for non-negative \<open>s\<close> and \<open>e1\<close>: the entries at the positions
  \<open>s \<le> i < e1\<close> that exist. An empty slice changes nothing.
\<close>

definition add_to_slice :: "int \<Rightarrow> int \<Rightarrow> real \<Rightarrow> real list \<Rightarrow> real list" where
  "add_to_slice s e1 x a =
     map (\<lambda>(i, y). if s \<le> int i \<and> int i < e1 then y + x else y) (enumerate 0 a)"

text \<open>\<open>np.argmax\<close>: the first position of the greatest entry; \<open>ValueError\<close> on the empty array.\<close>

fun argmax_from :: "nat \<Rightarrow> real \<Rightarrow> nat \<Rightarrow> real list \<Rightarrow> nat" where
  "argmax_from best best_val i [] = best"
| "argmax_from best best_val i (x # xs) =
     (if x > best_val then argmax_from i x (Suc i) xs
      else argmax_from best best_val (Suc i) xs)"

definition argmax :: "real list \<Rightarrow> error + nat" where
  "argmax a = (case a of [] \<Rightarrow> Inl ValueError | x # xs \<Rightarrow> Inr (argmax_from 0 x 1 xs))"

subsection \<open>\<open>calculate_value_area\<close>\<close>

text \<open>
  The loop of lines 164 to 177, from the state \<open>(current_volume, low_bin, high_bin)\<close>.
  Every turn either raises \<open>high_bin\<close>, lowers \<open>low_bin\<close> or leaves the loop.
\<close>

function expand_value_area :: "real list \<Rightarrow> real \<Rightarrow> real \<Rightarrow> nat \<Rightarrow> nat \<Rightarrow> nat \<times> nat" where
  "expand_value_area volume_profile target_volume current_volume low_bin high_bin =
     (if current_volume < target_volume then
        let vol_above = (if high_bin + 1 < length volume_profile
                         then volume_profile ! (high_bin + 1) else 0);
            vol_below = (if 1 \<le> low_bin then volume_profile ! (low_bin - 1) else 0)
        in
        if vol_above \<ge> vol_below \<and> high_bin + 1 < length volume_profile then
          expand_value_area volume_profile target_volume (current_volume + vol_above)
            low_bin (high_bin + 1)
        else if 1 \<le> low_bin then
          expand_value_area volume_profile target_volume (current_volume + vol_below)
            (low_bin - 1) high_bin
        else (low_bin, high_bin)
      else (low_bin, high_bin))"
  by pat_completeness auto
termination
  by (relation "measure (\<lambda>(vp, t, c, lo, hi). lo + (length vp - hi))") auto

text \<open>Returns \<open>(vah, val)\<close>, in the order of the source.\<close>

definition calculate_value_area ::
  "real list \<Rightarrow> real list \<Rightarrow> real \<Rightarrow> real \<Rightarrow> error + real \<times> real" where
  "calculate_value_area volume_profile price_bins bin_size value_area_pct =
     (let total_volume = sum_list volume_profile;
          target_volume = total_volume * value_area_pct
      in case argmax volume_profile of
           Inl e \<Rightarrow> Inl e
         | Inr poc_bin \<Rightarrow>
             let (low_bin, high_bin) =
                   expand_value_area volume_profile target_volume
                     (volume_profile ! poc_bin) poc_bin poc_bin
             in Inr (price_bins ! high_bin + bin_size, price_bins ! low_bin))"

subsection \<open>\<open>find_hvn\<close>, \<open>find_lvn\<close> and \<open>determine_regime\<close>\<close>

definition find_hvn :: "real list \<Rightarrow> real list \<Rightarrow> real \<Rightarrow> real \<Rightarrow> real list" where
  "find_hvn volume_profile price_bins bin_size threshold =
     (let avg_volume = mean volume_profile;
          hvn_threshold = avg_volume * threshold
      in map (\<lambda>(i, vol). price_bins ! i + bin_size / 2)
           (filter (\<lambda>(i, vol).
                vol \<ge> hvn_threshold \<and>
                (let is_local_max =
                       (\<not> (i > 0 \<and> volume_profile ! (i - 1) \<ge> vol)
                        \<and> \<not> (i + 1 < length volume_profile \<and> volume_profile ! (i + 1) \<ge> vol))
                 in is_local_max \<or> vol \<ge> avg_volume * 2))
              (enumerate 0 volume_profile)))"

definition find_lvn :: "real list \<Rightarrow> real list \<Rightarrow> real \<Rightarrow> real \<Rightarrow> real list" where
  "find_lvn volume_profile price_bins bin_size threshold =
     (let avg_volume = mean volume_profile;
          lvn_threshold = avg_volume * threshold
      in map (\<lambda>(i, vol). price_bins ! i + bin_size / 2)
           (filter (\<lambda>(i, vol).
                vol \<le> lvn_threshold \<and> vol > 0 \<and>
                \<not> (i > 0 \<and> volume_profile ! (i - 1) \<le> vol) \<and>
                \<not> (i + 1 < length volume_profile \<and> volume_profile ! (i + 1) \<le> vol))
              (enumerate 0 volume_profile)))"

text \<open>
  The trend strength divides by the mean of the first ten of the last twenty closes.
  The division is numpy's: by zero it yields an infinity of the sign of the numerator, or
  \<open>nan\<close> for \<open>0 / 0\<close>, and every comparison with \<open>nan\<close> is false.
\<close>

definition determine_regime :: "bar list \<Rightarrow> real \<Rightarrow> real \<Rightarrow> real \<Rightarrow> market_regime" where
  "determine_regime bars poc_price vah_price val_price =
     (if length bars < 20 then RANGING
      else
        let recent_closes = tail 20 (map close bars);
            first_half = mean (take 10 recent_closes);
            second_half = mean (tail 10 recent_closes);
            current_price = last (map close bars)
        in
        if current_price > vah_price * 1.005 then BREAKOUT
        else if current_price < val_price * 0.995 then BREAKOUT
        else if first_half = 0 then
          (if second_half - first_half > 0 then TRENDING_UP
           else if second_half - first_half < 0 then TRENDING_DOWN
           else RANGING)
        else
          let trend_strength = (second_half - first_half) / first_half in
          if trend_strength > 0.005 then TRENDING_UP
          else if trend_strength < - 0.005 then TRENDING_DOWN
          else RANGING)"

subsection \<open>\<open>build_volume_profile\<close>\<close>

text \<open>
  One turn of the loop of lines 85 to 87 for a bar with clipped bins \<open>s\<close> and \<open>e\<close> and
  volume \<open>v\<close>. When \<open>e < s\<close> the slice is empty and the quotient is not used.
\<close>

definition spread_volume :: "real list \<Rightarrow> int \<times> int \<times> real \<Rightarrow> real list" where
  "spread_volume volume_profile sev =
     (case sev of (s, e, v) \<Rightarrow>
        let bins_touched = e - s + 1
        in add_to_slice s (e + 1) (v / real_of_int bins_touched) volume_profile)"

text \<open>
  The dictionary comprehension of lines 103 to 106: the keys are written in the order of
  the bins, and a key written again keeps its place and takes the later value.
\<close>

definition profile_dict :: "real list \<Rightarrow> real \<Rightarrow> real list \<Rightarrow> nat \<Rightarrow> (real \<times> real) list" where
  "profile_dict price_bins bin_size volume_profile bins =
     foldl (\<lambda>d i. AList.update (price_bins ! i + bin_size / 2) (volume_profile ! i) d)
       [] [0..<bins]"

text \<open>The array \<open>volume_profile\<close> after the loop, from the frame and the bin geometry.\<close>

definition volume_by_bin :: "bar list \<Rightarrow> nat \<Rightarrow> real \<Rightarrow> real \<Rightarrow> real list" where
  "volume_by_bin bars bins price_min bin_size =
     (let start_bins = map (\<lambda>b. clip (astype_int_quotient (low b - price_min) bin_size)
                                    0 (int bins - 1)) bars;
          end_bins = map (\<lambda>b. clip (astype_int_quotient (high b - price_min) bin_size)
                                  0 (int bins - 1)) bars;
          v_vals = map volume bars
      in foldl spread_volume (replicate bins 0) (zip start_bins (zip end_bins v_vals)))"

text \<open>
  \<open>bins\<close> is a count; with \<open>bins = 0\<close> the array is empty and \<open>np.argmax\<close> raises
  \<open>ValueError\<close> (the first statement to raise).
\<close>

definition build_volume_profile ::
  "bar list \<Rightarrow> nat \<Rightarrow> real \<Rightarrow> error + volume_profile_result" where
  "build_volume_profile bars bins value_area_pct =
     (if bars = [] then
        Inr \<lparr> poc = 0, vah = 0, val = 0, hvn = [], lvn = [], profile = [],
              regime = RANGING, current_position = ''in_value'' \<rparr>
      else
        let price_min = Min (set (map low bars));
            price_max = Max (set (map high bars));
            price_range0 = price_max - price_min;
            price_range = (if price_range0 = 0 then price_min * 0.01 else price_range0);
            bin_size = price_range / real bins;
            price_bins = linspace price_min price_max (bins + 1);
            volume_profile = volume_by_bin bars bins price_min bin_size
        in
        case argmax volume_profile of
          Inl e \<Rightarrow> Inl e
        | Inr poc_bin \<Rightarrow>
            let poc_price = price_bins ! poc_bin + bin_size / 2 in
            (case calculate_value_area volume_profile price_bins bin_size value_area_pct of
               Inl e \<Rightarrow> Inl e
             | Inr (vah_price, val_price) \<Rightarrow>
                 let current_price = last (map close bars) in
                 Inr \<lparr> poc = poc_price, vah = vah_price, val = val_price,
                       hvn = find_hvn volume_profile price_bins bin_size 1.5,
                       lvn = find_lvn volume_profile price_bins bin_size 0.5,
                       profile = profile_dict price_bins bin_size volume_profile bins,
                       regime = determine_regime bars poc_price vah_price val_price,
                       current_position =
                         (if current_price > vah_price then ''above_vah''
                          else if current_price < val_price then ''below_val''
                          else ''in_value'') \<rparr>))"


section \<open>Backtesting simulator: \<open>backtesting/engine.py\<close>\<close>

subsection \<open>Trades, parameters and state\<close>

text \<open>
  \<open>Trade\<close>. The two time fields are readings of \<open>datetime.now()\<close>, modelled as natural
  numbers (ticks of the wall clock). \<open>pnl_pct\<close> is the quotient of line 276, taken by
  numpy: with a zero divisor it is an infinity or \<open>nan\<close>, which is \<open>None\<close> here.
\<close>

record trade =
  t_symbol :: string
  entry_time :: nat
  entry_price :: real
  t_direction :: string
  units :: int
  stop_loss :: real
  take_profit :: "real option"
  exit_time :: "nat option"
  exit_price :: "real option"
  pnl :: real
  pnl_pct :: "real option"
  exit_reason :: string

text \<open>The constructor parameters of \<open>BacktestEngine\<close>.\<close>

record engine_params =
  initial_capital :: real
  commission :: real
  slippage :: real
  trade_risk :: real

definition default_params :: engine_params where
  "default_params =
     \<lparr> initial_capital = 100000, commission = 0.001, slippage = 0.0005, trade_risk = 0.02 \<rparr>"

text \<open>
  The mutable state of the engine. \<open>open_positions\<close> is the dictionary from symbol to
  trade, kept as an association list: a store is \<open>AList.update\<close>, \<open>del\<close> is
  \<open>AList.delete\<close>, a lookup is \<open>map_of\<close>. The wall clock is an input of the run: the
  \<open>k\<close>-th call of \<open>datetime.now()\<close> returns \<open>now k\<close>, and \<open>clock_reads\<close> counts the calls
  made so far.
\<close>

record engine_state =
  capital :: real
  equity_history :: "real list"
  trades :: "trade list"
  open_positions :: "(string \<times> trade) list"
  clock_reads :: nat

definition reset :: "engine_params \<Rightarrow> engine_state" where
  "reset p =
     \<lparr> capital = initial_capital p, equity_history = [initial_capital p], trades = [],
       open_positions = [], clock_reads = 0 \<rparr>"

text \<open>
  The dictionary a strategy returns. \<open>action\<close> is read with \<open>.get\<close>, and so are the two
  optional prices.
\<close>

record strategy_signal =
  sig_action :: "string option"
  sig_stop_loss :: "real option"
  sig_take_profit :: "real option"

definition no_trade_signal :: strategy_signal where
  "no_trade_signal =
     \<lparr> sig_action = Some ''NO_TRADE'', sig_stop_loss = None, sig_take_profit = None \<rparr>"

subsection \<open>\<open>_close_position\<close>\<close>

definition close_position ::
  "engine_params \<Rightarrow> (nat \<Rightarrow> nat) \<Rightarrow> string \<Rightarrow> real \<Rightarrow> string \<Rightarrow> engine_state \<Rightarrow> engine_state" where
  "close_position p now symbol exit_price0 why s =
     (case map_of (open_positions s) symbol of
        None \<Rightarrow> s
      | Some tr \<Rightarrow>
          let exit_price1 = (if t_direction tr = ''long'' then exit_price0 * (1 - slippage p)
                             else exit_price0 * (1 + slippage p));
              pnl0 = (if t_direction tr = ''long''
                      then (exit_price1 - entry_price tr) * real_of_int (units tr)
                      else (entry_price tr - exit_price1) * real_of_int (units tr));
              pnl1 = pnl0 - exit_price1 * real_of_int (units tr) * commission p;
              closed = tr \<lparr> exit_time := Some (now (clock_reads s)),
                           exit_price := Some exit_price1,
                           pnl := pnl1,
                           pnl_pct := (if entry_price tr * real_of_int (units tr) = 0 then None
                                       else Some (pnl1 / (entry_price tr * real_of_int (units tr))
                                                  * 100)),
                           exit_reason := why \<rparr>
          in s \<lparr> capital := capital s + pnl1,
                 trades := trades s @ [closed],
                 open_positions := AList.delete symbol (open_positions s),
                 clock_reads := Suc (clock_reads s) \<rparr>)"

subsection \<open>\<open>_check_stops\<close>\<close>

text \<open>
  The stop check comes first; the take-profit check follows on the same local \<open>trade\<close>
  even when the stop has just closed the position, in which case \<open>_close_position\<close>
  finds no open position and returns. \<open>if trade.take_profit:\<close> is false for \<open>None\<close> and
  for \<open>0.0\<close>.
\<close>

definition check_stops ::
  "engine_params \<Rightarrow> (nat \<Rightarrow> nat) \<Rightarrow> string \<Rightarrow> bar \<Rightarrow> engine_state \<Rightarrow> engine_state" where
  "check_stops p now symbol b s =
     (case map_of (open_positions s) symbol of
        None \<Rightarrow> s
      | Some tr \<Rightarrow>
          let s1 = (if t_direction tr = ''long''
                    then (if low b \<le> stop_loss tr
                          then close_position p now symbol (stop_loss tr) ''stop_loss'' s else s)
                    else (if high b \<ge> stop_loss tr
                          then close_position p now symbol (stop_loss tr) ''stop_loss'' s else s))
          in case take_profit tr of
               None \<Rightarrow> s1
             | Some tp \<Rightarrow>
                 if tp = 0 then s1
                 else if t_direction tr = ''long''
                 then (if high b \<ge> tp
                       then close_position p now symbol tp ''take_profit'' s1 else s1)
                 else (if low b \<le> tp
                       then close_position p now symbol tp ''take_profit'' s1 else s1))"

subsection \<open>\<open>_execute_signal\<close>\<close>

text \<open>
  \<open>int(a / b)\<close> where the quotient is numpy's (the entry price comes from a frame row):
  a zero divisor gives an infinity, on which \<open>int\<close> raises \<open>OverflowError\<close>, or \<open>nan\<close> for
  \<open>0 / 0\<close>, on which it raises \<open>ValueError\<close>.
\<close>

definition int_of_quotient :: "real \<Rightarrow> real \<Rightarrow> error + int" where
  "int_of_quotient a b =
     (if b = 0 then (if a = 0 then Inl ValueError else Inl OverflowError)
      else Inr (py_int (a / b)))"

definition execute_signal ::
  "engine_params \<Rightarrow> (nat \<Rightarrow> nat) \<Rightarrow> string \<Rightarrow> strategy_signal \<Rightarrow> bar \<Rightarrow> engine_state
     \<Rightarrow> error + engine_state" where
  "execute_signal p now symbol signal b s =
     (if map_of (open_positions s) symbol \<noteq> None then Inr s
      else
        let buy = (sig_action signal = Some ''BUY'');
            entry = (if buy then close b * (1 + slippage p) else close b * (1 - slippage p));
            dir = (if buy then ''long'' else ''short'');
            stop = (case sig_stop_loss signal of
                      Some x \<Rightarrow> x
                    | None \<Rightarrow> entry * (if buy then 0.98 else 1.02));
            stop_distance = \<bar>entry - stop\<bar>;
            risk_amount = capital s * trade_risk p
        in
        case (if stop_distance > 0 then Inr (py_int (risk_amount / stop_distance))
              else int_of_quotient (capital s * 0.1) entry) of
          Inl e \<Rightarrow> Inl e
        | Inr units0 \<Rightarrow>
            let position_value = real_of_int units0 * entry * (1 + commission p) in
            (case (if position_value > capital s * 0.9
                   then int_of_quotient (capital s * 0.9) (entry * (1 + commission p))
                   else Inr units0) of
               Inl e \<Rightarrow> Inl e
             | Inr units1 \<Rightarrow>
                 if units1 \<le> 0 then Inr s
                 else
                   let tr = \<lparr> t_symbol = symbol, entry_time = now (clock_reads s),
                              entry_price = entry, t_direction = dir, units = units1,
                              stop_loss = stop, take_profit = sig_take_profit signal,
                              exit_time = None, exit_price = None, pnl = 0,
                              pnl_pct = Some 0, exit_reason = [] \<rparr>
                   in Inr (s \<lparr> open_positions := AList.update symbol tr (open_positions s),
                               capital := capital s
                                   - real_of_int units1 * entry * commission p,
                               clock_reads := Suc (clock_reads s) \<rparr>)))"

subsection \<open>\<open>_update_equity\<close>\<close>

definition unrealized_pnl :: "real \<Rightarrow> trade \<Rightarrow> real" where
  "unrealized_pnl current_price tr =
     (if t_direction tr = ''long''
      then (current_price - entry_price tr) * real_of_int (units tr)
      else (entry_price tr - current_price) * real_of_int (units tr))"

definition update_equity :: "real \<Rightarrow> engine_state \<Rightarrow> engine_state" where
  "update_equity current_price s =
     (let unrealized = sum_list (map (unrealized_pnl current_price \<circ> snd) (open_positions s));
          equity = capital s + unrealized
      in s \<lparr> equity_history := equity_history s @ [equity] \<rparr>)"

subsection \<open>\<open>run_backtest\<close>\<close>

text \<open>
  One turn of the loop of lines 142 to 161, for the bar at position \<open>i\<close>. The strategy
  is a function of the window; \<open>None\<close> stands for a call that raised, which line 154
  replaces by \<open>{'action': 'NO_TRADE'}\<close>.
\<close>

definition bar_step ::
  "engine_params \<Rightarrow> (nat \<Rightarrow> nat) \<Rightarrow> string \<Rightarrow> bar list \<Rightarrow> (bar list \<Rightarrow> strategy_signal option)
     \<Rightarrow> nat \<Rightarrow> engine_state \<Rightarrow> error + engine_state" where
  "bar_step p now symbol data strategy_func i s =
     (let window_size = 60;
          window = take window_size (drop (i - window_size) data);
          current_bar = data ! i;
          current_price = close current_bar;
          s1 = check_stops p now symbol current_bar s;
          signal = (case strategy_func window of None \<Rightarrow> no_trade_signal | Some sg \<Rightarrow> sg)
      in
      case (if sig_action signal = Some ''BUY'' \<or> sig_action signal = Some ''SELL''
            then execute_signal p now symbol signal current_bar s1 else Inr s1) of
        Inl e \<Rightarrow> Inl e
      | Inr s2 \<Rightarrow> Inr (update_equity current_price s2))"

fun backtest_loop ::
  "engine_params \<Rightarrow> (nat \<Rightarrow> nat) \<Rightarrow> string \<Rightarrow> bar list \<Rightarrow> (bar list \<Rightarrow> strategy_signal option)
     \<Rightarrow> nat list \<Rightarrow> engine_state \<Rightarrow> error + engine_state" where
  "backtest_loop p now symbol data strategy_func [] s = Inr s"
| "backtest_loop p now symbol data strategy_func (i # rest) s =
     (case bar_step p now symbol data strategy_func i s of
        Inl e \<Rightarrow> Inl e
      | Inr s' \<Rightarrow> backtest_loop p now symbol data strategy_func rest s')"

text \<open>
  The part of \<open>BacktestResult\<close> that the run itself produces: the capital figures, the
  trade list and the equity curve. The ratio statistics of \<open>_calculate_results\<close> are
  functions of these two lists and are left out.
\<close>

record backtest_result =
  res_symbol :: string
  res_initial_capital :: real
  res_final_capital :: real
  res_total_return :: real
  res_total_trades :: nat
  res_equity_curve :: "real list"
  res_trades :: "trade list"

definition calculate_results :: "engine_params \<Rightarrow> string \<Rightarrow> engine_state \<Rightarrow> backtest_result" where
  "calculate_results p symbol s =
     \<lparr> res_symbol = symbol, res_initial_capital = initial_capital p,
       res_final_capital = last (equity_history s),
       res_total_return = last (equity_history s) - initial_capital p,
       res_total_trades = length (trades s),
       res_equity_curve = equity_history s, res_trades = trades s \<rparr>"

text \<open>
  The state at the end of the run: reset, the optional date filters (\<open>start_ms\<close> and
  \<open>end_ms\<close> are \<open>start_date.timestamp() * 1000\<close> and its twin), the length check, the
  loop from bar 60 on, and the forced close at the last bar.
\<close>

definition run_state ::
  "engine_params \<Rightarrow> (nat \<Rightarrow> nat) \<Rightarrow> string \<Rightarrow> bar list \<Rightarrow> (bar list \<Rightarrow> strategy_signal option)
     \<Rightarrow> real option \<Rightarrow> real option \<Rightarrow> error + engine_state" where
  "run_state p now symbol data0 strategy_func start_ms end_ms =
     (let data1 = (case start_ms of None \<Rightarrow> data0
                   | Some t \<Rightarrow> filter (\<lambda>b. timestamp b \<ge> t) data0);
          data = (case end_ms of None \<Rightarrow> data1
                  | Some t \<Rightarrow> filter (\<lambda>b. timestamp b \<le> t) data1)
      in
      if length data < 100 then Inl ValueError
      else
        case backtest_loop p now symbol data strategy_func [60..<length data] (reset p) of
          Inl e \<Rightarrow> Inl e
        | Inr s \<Rightarrow>
            Inr (if map_of (open_positions s) symbol \<noteq> None
                 then close_position p now symbol (close (last data)) ''end_of_backtest'' s
                 else s))"

definition run_backtest ::
  "engine_params \<Rightarrow> (nat \<Rightarrow> nat) \<Rightarrow> string \<Rightarrow> bar list \<Rightarrow> (bar list \<Rightarrow> strategy_signal option)
     \<Rightarrow> real option \<Rightarrow> real option \<Rightarrow> error + backtest_result" where
  "run_backtest p now symbol data0 strategy_func start_ms end_ms =
     map_sum id (calculate_results p symbol)
       (run_state p now symbol data0 strategy_func start_ms end_ms)"

subsection \<open>States of a run\<close>

text \<open>
  The states the engine passes through during a call of \<open>run_backtest\<close> for \<open>symbol\<close>:
  the state after \<open>reset\<close> (line 125), and from any such state the state after
  \<open>_check_stops\<close> (line 148), after \<open>_execute_signal\<close> for a BUY or SELL signal (line
  158), after \<open>_update_equity\<close> (line 161) and after the final \<open>_close_position\<close> (line
  166), for whatever bar, signal and price the data and the strategy supply.
\<close>

inductive visited :: "engine_params \<Rightarrow> (nat \<Rightarrow> nat) \<Rightarrow> string \<Rightarrow> engine_state \<Rightarrow> bool"
  for p :: engine_params and now :: "nat \<Rightarrow> nat" and symbol :: string where
  after_reset: "visited p now symbol (reset p)"
| after_check_stops:
    "visited p now symbol s \<Longrightarrow> visited p now symbol (check_stops p now symbol b s)"
| after_execute_signal:
    "visited p now symbol s \<Longrightarrow>
     sig_action signal = Some ''BUY'' \<or> sig_action signal = Some ''SELL'' \<Longrightarrow>
     execute_signal p now symbol signal b s = Inr s' \<Longrightarrow> visited p now symbol s'"
| after_update_equity:
    "visited p now symbol s \<Longrightarrow> visited p now symbol (update_equity price s)"
| after_final_close:
    "visited p now symbol s \<Longrightarrow>
     visited p now symbol (close_position p now symbol price ''end_of_backtest'' s)"

code_pred visited .

subsection \<open>Trades and states up to the wall clock\<close>

text \<open>
  A trade with its two clock readings blanked (an exit time that is set stays set), and
  a state with the clock blanked in every trade and in the counter of clock reads. Two
  runs are compared through these.
\<close>

definition untimed :: "trade \<Rightarrow> trade" where
  "untimed tr = tr \<lparr> entry_time := 0, exit_time := map_option (\<lambda>t. 0) (exit_time tr) \<rparr>"

definition untimed_state :: "engine_state \<Rightarrow> engine_state" where
  "untimed_state s =
     s \<lparr> trades := map untimed (trades s),
         open_positions := map (\<lambda>(k, tr). (k, untimed tr)) (open_positions s),
         clock_reads := 0 \<rparr>"

section \<open>Properties of the decision engine\<close>

subsection \<open>The volatility gate\<close>

text \<open>
  Claim C1. Whatever the tape-reader and chartist dictionaries hold (any direction, any
  confidence, keys present or missing) and whatever direction and confidence the macro
  source reports, a macro signal with \<open>trading_allowed = False\<close> makes
  \<open>aggregate_signals\<close> return the \<open>no_trade\<close> dictionary of lines 153 to 158:
  confidence 0, position size 0, the volatility-filter reason, and none of the keys that
  the weighting, the agreement bonus or the thresholds compute.
\<close>

theorem trading_halt_gate_absolute:
  assumes "ms_trading_allowed m = Some False"
  shows "aggregate_signals cfg tape_reader_signal chartist_signal (Some m) =
           \<lparr> final_decision = ''no_trade'',
             reason = Some ''Volatility filter active - near high-impact event'',
             agg_direction = None, agg_confidence = 0, position_size = Some 0,
             signal_strength = None, agreement = None, agent_signals = None \<rparr>"
  using assms by (simp add: aggregate_signals_def get_or_def Let_def)

text \<open>The gate at three strongly bullish sources, which would otherwise go long.\<close>

theorem trading_halt_gate_absolute_witness:
  "aggregate_signals default_config
      (Some \<lparr> fs_direction = Some ''bullish'', fs_confidence = Some 0.9 \<rparr>)
      (Some \<lparr> ctx_direction = Some ''bullish_breakout'', ctx_strength = Some 0.95 \<rparr>)
      (Some \<lparr> ms_direction = Some ''bullish'', ms_confidence = Some 0.9,
              ms_trading_allowed = Some False \<rparr>) =
     \<lparr> final_decision = ''no_trade'',
       reason = Some ''Volatility filter active - near high-impact event'',
       agg_direction = None, agg_confidence = 0, position_size = Some 0,
       signal_strength = None, agreement = None, agent_signals = None \<rparr>"
  using trading_halt_gate_absolute
    [of "\<lparr> ms_direction = Some ''bullish'', ms_confidence = Some 0.9,
              ms_trading_allowed = Some False \<rparr>" default_config]
  by simp

subsection \<open>The agreement bonus at the boundary\<close>

lemma count_le_one:
  assumes "(c1, c2, c3) \<in> {(0.5, 0.5, 0.9), (0.5, 0.9, 0.5), (0.9, 0.5, 0.5 :: real)}"
  shows "bullish_count [(n1, d1, c1), (n2, d2, c2), (n3, d3, c3)] \<le> 1"
    and "bearish_count [(n1, d1, c1), (n2, d2, c2), (n3, d3, c3)] \<le> 1"
  using assms by (auto simp: bullish_count_def bearish_count_def)

text \<open>
  Claim C9. When two of the three sources report confidence exactly 0.50 and the third
  reports 0.9, in whichever order and with whatever directions (in particular with the two
  0.50 sources agreeing), \<open>total_signal\<close> is the plain weighted sum: neither +0.2 nor
  -0.2 is applied, because a source counts toward agreement only with confidence
  strictly above 0.5. The returned \<open>signal_strength\<close> is the absolute value of that sum.
\<close>

theorem agreement_bonus_needs_strict_confidence:
  assumes "(c1, c2, c3) \<in> {(0.5, 0.5, 0.9), (0.5, 0.9, 0.5), (0.9, 0.5, 0.5 :: real)}"
  shows "total_signal [(''tape_reader'', d1, c1), (''chartist'', d2, c2), (''macro'', d3, c3)]
           = weighted_sum [(''tape_reader'', d1, c1), (''chartist'', d2, c2), (''macro'', d3, c3)]
         \<and> signal_strength
             (aggregate_signals cfg
                (Some \<lparr> fs_direction = Some d1, fs_confidence = Some c1 \<rparr>)
                (Some \<lparr> ctx_direction = Some d2, ctx_strength = Some c2 \<rparr>)
                (Some \<lparr> ms_direction = Some d3, ms_confidence = Some c3,
                        ms_trading_allowed = Some True \<rparr>))
           = Some \<bar>signal_map d1 * c1 * 0.40 + signal_map d2 * c2 * 0.35
                     + signal_map d3 * c3 * 0.25\<bar>"
proof -
  let ?s = "[(''tape_reader'', d1, c1), (''chartist'', d2, c2), (''macro'', d3, c3)]"
  have b: "bullish_count ?s \<le> 1" and r: "bearish_count ?s \<le> 1"
    using count_le_one[OF assms] by simp_all
  have t: "total_signal ?s = weighted_sum ?s"
    using b r by (simp add: total_signal_def)
  have w: "weighted_sum ?s = signal_map d1 * c1 * 0.40 + signal_map d2 * c2 * 0.35
                     + signal_map d3 * c3 * 0.25"
    by (simp add: weighted_sum_def weight_tape_reader_def weight_chartist_def weight_macro_def)
  show ?thesis
    using t w by (simp add: aggregate_signals_def get_or_def Let_def split: prod.splits)
qed

text \<open>
  Two bullish sources at 0.50 against a bearish one at 0.9: the total is
  \<open>0.2 + 0.175 - 0.225 = 0.15\<close>, where a bonus would have given 0.35.
\<close>

theorem agreement_bonus_needs_strict_confidence_witness:
  "total_signal [(''tape_reader'', ''bullish'', 0.5), (''chartist'', ''bullish'', 0.5),
                 (''macro'', ''bearish'', 0.9)] = 0.15"
  using agreement_bonus_needs_strict_confidence
    [of "0.5" "0.5" "0.9" "''bullish''" "''bullish''" "''bearish''"]
  by (simp add: weighted_sum_def signal_map_def weight_tape_reader_def weight_chartist_def
      weight_macro_def)

subsection \<open>The position-size cap\<close>

text \<open>
  Claim C2. For positive equity and positive entry price, every stop and every
  confidence (the bounds 0 and 1 on the confidence are not needed),
  \<open>calculate_position_size\<close> returns a sizing, and its \<open>position_pct\<close> is at most
  \<open>max_position_size\<close> (0.10 in the default configuration). The stop distance is
  \<open>|entry - stop|\<close>, replaced by 1% of the entry price when entry and stop coincide. When
  the uncapped percentage exceeds the cap, the percentage is the cap, the position value
  is \<open>equity * cap\<close> and the units are \<open>int(equity * cap / entry)\<close>, which is the
  uncapped unit count scaled by \<open>cap / pct\<close>; otherwise percentage and units are the
  uncapped ones.
\<close>

theorem position_pct_never_exceeds_cap:
  assumes "0 < equity" and "0 < entry"
  shows "\<exists>r. calculate_position_size cfg equity symbol entry stop conf = Inr r
           \<and> ps_position_pct r \<le> max_position_size cfg
           \<and> (let stop_distance = (if entry = stop then entry * 0.01
                                     else \<bar>entry - stop\<bar>);
                    qty = equity * risk_per_trade cfg * conf / stop_distance;
                    pct = qty * entry / equity
                in ps_stop_distance_pct r = stop_distance / entry * 100
                 \<and> (if pct > max_position_size cfg
                    then ps_position_pct r = max_position_size cfg
                       \<and> ps_position_value r = equity * max_position_size cfg
                       \<and> ps_units r = py_int (equity * max_position_size cfg / entry)
                       \<and> (if 0 \<le> max_position_size cfg
                          then equity * max_position_size cfg / entry
                                 = qty * (max_position_size cfg / pct)
                          else True)
                    else ps_position_pct r = pct \<and> ps_units r = py_int qty))"
proof -
  define sd where "sd = (if entry = stop then entry * 0.01
                         else \<bar>entry - stop\<bar>)"
  have sd_pos: "0 < sd" using assms by (auto simp: sd_def)
  have sd_src: "(if \<bar>entry - stop\<bar> = 0 then entry * 0.01
                 else \<bar>entry - stop\<bar>) = sd"
    by (auto simp: sd_def)
  define qty where "qty = equity * risk_per_trade cfg * conf / sd"
  define pct where "pct = qty * entry / equity"
  have scaled: "equity * max_position_size cfg / entry = qty * (max_position_size cfg / pct)"
    if "pct > max_position_size cfg" "0 \<le> max_position_size cfg"
  proof -
    have "pct > 0" using that by simp
    then have "qty \<noteq> 0" by (auto simp: pct_def)
    then show ?thesis using assms by (simp add: pct_def field_simps)
  qed
  show ?thesis
    using assms sd_pos scaled
    unfolding calculate_position_size_def sd_src Let_def
    unfolding sd_def[symmetric] units_def[symmetric] pct_def[symmetric]
    by (auto simp: Let_def)
qed

text \<open>
  Entry equal to stop at 450 with equity 100000 and confidence 0.9: the floor gives a stop
  distance of 4.5 (1%), 400 units worth 180% of equity, capped to 10%: 22 units.
\<close>

theorem position_pct_never_exceeds_cap_witness:
  "calculate_position_size default_config 100000 ''SPY'' 450 450 0.9 =
     Inr \<lparr> ps_symbol = ''SPY'', ps_units = 22, ps_position_value = 10000,
           ps_position_pct = 0.10, ps_risk_amount = 1800, ps_stop_loss = 450,
           ps_stop_distance_pct = 1 \<rparr>"
  using position_pct_never_exceeds_cap [of 100000 450 default_config "''SPY''" 450 "0.9"]
  by (simp add: calculate_position_size_def default_config_def py_int_def Let_def)

subsection \<open>Kelly sizing\<close>

text \<open>
  Claim C10. The claim fails on the code at \<open>avg_win = 0\<close>: the guard of line 224
  covers \<open>avg_loss = 0\<close> and a win rate outside (0, 1), but with
  \<open>win_rate = 0.5, avg_win = 0.0, avg_loss = 1.0\<close> the ratio \<open>r\<close> is \<open>0.0\<close> and line
  226 divides \<open>1 - win_rate\<close> by it, which raises \<open>ZeroDivisionError\<close> instead of
  returning a value in \<open>[0, max_position_size]\<close>.
\<close>

theorem kelly_size_zero_avg_win_raises:
  "calculate_kelly_size default_config 0.5 0 1 = Inl ZeroDivisionError"
  by (simp add: calculate_kelly_size_def)

text \<open>
  Away from that input the bound holds: with a non-zero average win (and a non-negative
  cap) the function returns a value between 0 and \<open>max_position_size\<close>.
\<close>

lemma kelly_size_in_range:
  assumes "avg_win \<noteq> 0" and "0 \<le> max_position_size cfg"
  shows "\<exists>k. calculate_kelly_size cfg win_rate avg_win avg_loss = Inr k
             \<and> 0 \<le> k \<and> k \<le> max_position_size cfg"
  using assms by (auto simp: calculate_kelly_size_def Let_def)


section \<open>Properties of the order-flow analyzer\<close>

subsection \<open>Delta exhaustion\<close>

lemma tail_first_last:
  assumes "0 < n" and "n \<le> length xs"
  shows "iloc_first (tail n xs) = Inr (xs ! (length xs - n))"
    and "iloc_last (tail n xs) = Inr (last xs)"
proof -
  have ne: "drop (length xs - n) xs \<noteq> []" using assms by simp
  have "hd (drop (length xs - n) xs) = xs ! (length xs - n)"
    using assms by (simp add: hd_drop_conv_nth)
  then show "iloc_first (tail n xs) = Inr (xs ! (length xs - n))"
    using ne by (cases "drop (length xs - n) xs") (auto simp: iloc_first_def tail_def)
  show "iloc_last (tail n xs) = Inr (last xs)"
    using ne by (simp add: iloc_last_def tail_def)
qed

text \<open>
  Claim C7, as stated, fails. Over the last ten bars the cumulative delta falls strictly
  from 10 to 1 (a decline of 9) while the close rises strictly from 100 to 127 (a rise of
  27, more than twice the decline). The divergence ratio is \<open>9 / (27 + 1e-10)\<close>, about
  one third, which is not above 0.5: \<open>detect_delta_exhaustion\<close> returns \<open>None\<close>, not a
  bearish exhaustion signal. A price move of more than twice the delta move always puts
  the ratio below one half.
\<close>

theorem exhaustion_missed_when_price_outruns_delta:
  "detect_delta_exhaustion [10, 9, 8, 7, 6, 5, 4, 3, 2, 1]
     [100, 103, 106, 109, 112, 115, 118, 121, 124, 127] 10 = Inr None"
  by (simp add: detect_delta_exhaustion_def tail_def iloc_first_def iloc_last_def
      bearish_exhaustion_def bullish_exhaustion_def eps_def Let_def)

lemma exhaustion_confidence_bounds:
  assumes "(ds::real) > 0.5"
  shows "0.5 \<le> min 0.9 (0.5 + ds * 0.4)" and "min 0.9 (0.5 + ds * 0.4) \<le> 0.9"
  using assms by (simp_all add: min_def)

lemma divergence_above_half:
  assumes "0 < p" and "0 < d" and "p + eps < 2 * d"
  shows "d / (p + eps) > 0.5"
proof -
  have "0 < p + eps" using assms by (simp add: eps_def)
  moreover have "0.5 * (p + eps) < d" using assms by simp
  ultimately show ?thesis by (simp add: pos_less_divide_eq)
qed

lemma bearish_exhaustion_fires:
  assumes "price_trend > 0" and "delta_trend < 0"
    and "price_trend + eps < 2 * (- delta_trend)"
  shows "\<exists>s. bearish_exhaustion delta_trend price_trend latest final = Some s
           \<and> signal_type s = BEARISH \<and> pattern s = EXHAUSTION
           \<and> 0.5 \<le> confidence s \<and> confidence s \<le> 0.9"
proof -
  define ds where "ds = \<bar>delta_trend\<bar> / (\<bar>price_trend\<bar> + eps)"
  have d: "ds > 0.5"
    using divergence_above_half[of price_trend "- delta_trend"] assms by (simp add: ds_def)
  define c where "c = min 0.9 (0.5 + ds * 0.4)"
  have cb: "0.5 \<le> c" "c \<le> 0.9"
    unfolding c_def by (rule exhaustion_confidence_bounds[OF d])+
  have "bearish_exhaustion delta_trend price_trend latest final =
          Some \<lparr> signal_type = BEARISH, pattern = EXHAUSTION,
                 confidence = c,
                 delta = latest, cumulative_delta = final,
                 description = ''BEARISH EXHAUSTION: Price rising but buying pressure fading'',
                 ofs_timestamp = 0 \<rparr>"
    unfolding bearish_exhaustion_def Let_def ds_def[symmetric] c_def[symmetric]
    using assms(1,2) d by simp
  then show ?thesis using cb by simp
qed

lemma bullish_exhaustion_fires:
  assumes "price_trend < 0" and "delta_trend > 0"
    and "(- price_trend) + eps < 2 * delta_trend"
  shows "bearish_exhaustion delta_trend price_trend latest final = None"
    and "\<exists>s. bullish_exhaustion delta_trend price_trend latest final = Some s
           \<and> signal_type s = BULLISH \<and> pattern s = EXHAUSTION
           \<and> 0.5 \<le> confidence s \<and> confidence s \<le> 0.9"
proof -
  show "bearish_exhaustion delta_trend price_trend latest final = None"
    using assms by (simp add: bearish_exhaustion_def)
  define ds where "ds = \<bar>delta_trend\<bar> / (\<bar>price_trend\<bar> + eps)"
  have d: "ds > 0.5"
    using divergence_above_half[of "- price_trend" delta_trend] assms by (simp add: ds_def)
  define c where "c = min 0.9 (0.5 + ds * 0.4)"
  have cb: "0.5 \<le> c" "c \<le> 0.9"
    unfolding c_def by (rule exhaustion_confidence_bounds[OF d])+
  have "bullish_exhaustion delta_trend price_trend latest final =
          Some \<lparr> signal_type = BULLISH, pattern = EXHAUSTION,
                 confidence = c,
                 delta = latest, cumulative_delta = final,
                 description = ''BULLISH EXHAUSTION: Price falling but selling pressure fading'',
                 ofs_timestamp = 0 \<rparr>"
    unfolding bullish_exhaustion_def Let_def ds_def[symmetric] c_def[symmetric]
    using assms(1,2) d by simp
  then show "\<exists>s. bullish_exhaustion delta_trend price_trend latest final = Some s
           \<and> signal_type s = BULLISH \<and> pattern s = EXHAUSTION
           \<and> 0.5 \<le> confidence s \<and> confidence s \<le> 0.9"
    using cb by simp
qed

text \<open>
  Claim C7, amended. The inequality runs the other way. Let both series have at least
  \<open>lookback\<close> entries (\<open>lookback > 0\<close>), and let the trends be taken between the first
  and the last entry of the trailing \<open>lookback\<close> entries. If the close rises, the
  cumulative delta falls, and the rise plus \<open>1e-10\<close> is less than twice the delta
  decline (so that the ratio of line 247 exceeds 0.5), the function returns a bearish
  exhaustion signal with confidence between 0.5 and 0.9. Symmetrically, if the close
  falls, the cumulative delta rises, and the fall plus \<open>1e-10\<close> is less than twice the
  delta rise, it returns a bullish exhaustion signal with the same bounds.
\<close>

theorem exhaustion_detected_when_delta_outruns_half_price:
  assumes "0 < lookback" and "lookback \<le> length cd" and "lookback \<le> length price"
  shows "(let delta_trend = last cd - cd ! (length cd - lookback);
              price_trend = last price - price ! (length price - lookback)
          in (price_trend > 0 \<and> delta_trend < 0 \<and> price_trend + eps < 2 * (- delta_trend)
                \<longrightarrow> (\<exists>s. detect_delta_exhaustion cd price lookback = Inr (Some s)
                       \<and> signal_type s = BEARISH \<and> pattern s = EXHAUSTION
                       \<and> 0.5 \<le> confidence s \<and> confidence s \<le> 0.9))
           \<and> (price_trend < 0 \<and> delta_trend > 0 \<and> (- price_trend) + eps < 2 * delta_trend
                \<longrightarrow> (\<exists>s. detect_delta_exhaustion cd price lookback = Inr (Some s)
                       \<and> signal_type s = BULLISH \<and> pattern s = EXHAUSTION
                       \<and> 0.5 \<le> confidence s \<and> confidence s \<le> 0.9)))"
proof -
  define dt where "dt = last cd - cd ! (length cd - lookback)"
  define pt where "pt = last price - price ! (length price - lookback)"
  have run: "detect_delta_exhaustion cd price lookback =
      (case bearish_exhaustion dt pt (last cd) (last cd) of
         Some s \<Rightarrow> Inr (Some s)
       | None \<Rightarrow> Inr (bullish_exhaustion dt pt (last cd) (last cd)))"
    unfolding dt_def pt_def
    using assms tail_first_last[of lookback cd] tail_first_last[of lookback price]
    by (simp add: detect_delta_exhaustion_def Let_def)
  have bear: "\<exists>s. detect_delta_exhaustion cd price lookback = Inr (Some s)
                       \<and> signal_type s = BEARISH \<and> pattern s = EXHAUSTION
                       \<and> 0.5 \<le> confidence s \<and> confidence s \<le> 0.9"
    if h: "pt > 0" "dt < 0" "pt + eps < 2 * (- dt)"
  proof -
    obtain s where "bearish_exhaustion dt pt (last cd) (last cd) = Some s"
      "signal_type s = BEARISH" "pattern s = EXHAUSTION" "0.5 \<le> confidence s" "confidence s \<le> 0.9"
      using bearish_exhaustion_fires[OF h] by blast
    then show ?thesis using run by simp
  qed
  have bull: "\<exists>s. detect_delta_exhaustion cd price lookback = Inr (Some s)
                       \<and> signal_type s = BULLISH \<and> pattern s = EXHAUSTION
                       \<and> 0.5 \<le> confidence s \<and> confidence s \<le> 0.9"
    if h: "pt < 0" "dt > 0" "(- pt) + eps < 2 * dt"
  proof -
    obtain s where "bullish_exhaustion dt pt (last cd) (last cd) = Some s"
      "signal_type s = BULLISH" "pattern s = EXHAUSTION" "0.5 \<le> confidence s" "confidence s \<le> 0.9"
      using bullish_exhaustion_fires(2)[OF h] by blast
    moreover have "bearish_exhaustion dt pt (last cd) (last cd) = None"
      using bullish_exhaustion_fires(1)[OF h] .
    ultimately show ?thesis using run by simp
  qed
  show ?thesis
    unfolding Let_def dt_def[symmetric] pt_def[symmetric]
    using bear bull by blast
qed

text \<open>
  A decline of 9 against a rise of 9, and the mirror image: both are detected.
\<close>

theorem exhaustion_detected_when_delta_outruns_half_price_witness:
  "(\<exists>s. detect_delta_exhaustion [10, 9, 8, 7, 6, 5, 4, 3, 2, 1]
          [100, 101, 102, 103, 104, 105, 106, 107, 108, 109] 10 = Inr (Some s)
        \<and> signal_type s = BEARISH \<and> pattern s = EXHAUSTION
        \<and> 0.5 \<le> confidence s \<and> confidence s \<le> 0.9)
   \<and> (\<exists>s. detect_delta_exhaustion [1, 2, 3, 4, 5, 6, 7, 8, 9, 10]
          [109, 108, 107, 106, 105, 104, 103, 102, 101, 100] 10 = Inr (Some s)
        \<and> signal_type s = BULLISH \<and> pattern s = EXHAUSTION
        \<and> 0.5 \<le> confidence s \<and> confidence s \<le> 0.9)"
  using exhaustion_detected_when_delta_outruns_half_price
          [of 10 "[10, 9, 8, 7, 6, 5, 4, 3, 2, 1]"
                 "[100, 101, 102, 103, 104, 105, 106, 107, 108, 109]"]
        exhaustion_detected_when_delta_outruns_half_price
          [of 10 "[1, 2, 3, 4, 5, 6, 7, 8, 9, 10]"
                 "[109, 108, 107, 106, 105, 104, 103, 102, 101, 100]"]
  by (simp add: eps_def Let_def)

subsection \<open>Empty and short windows\<close>

text \<open>
  Claim C6, as stated, fails: on the empty window \<open>analyze_orderflow\<close> raises. It has no
  branch for a missing or short window; line 421 runs \<open>estimate_delta_from_ohlcv\<close> and
  line 424 reads \<open>bars.iloc[-1]\<close> unguarded.
\<close>

theorem analyze_orderflow_raises_on_empty_window:
  "isl (analyze_orderflow [])"
  by (simp add: analyze_orderflow_def estimate_delta_from_ohlcv_def series_std_def)

text \<open>
  Claim C6, amended. The structured result is built one level up. \<open>analyze_orderflow\<close>
  raises on the empty window; its caller \<open>TapeReaderAgent.analyze_symbol\<close>, which is the
  function the crew fans out, returns the dictionary
  \<open>{symbol, status: 'error', message: 'No data available'}\<close> for an empty frame without
  calling the analysis, and turns every exception that \<open>analyze_orderflow\<close> raises on a
  non-empty frame into \<open>{symbol, status: 'error', message: str(e), agent: 'tape_reader'}\<close>;
  it never raises itself (in the model it is a total function into the result record).
  For a series shorter than the lookback, \<open>detect_delta_exhaustion\<close> returns \<open>None\<close>
  without raising.
\<close>

theorem insufficient_data_is_reported_by_the_caller:
  "isl (analyze_orderflow [])
   \<and> analyze_symbol symbol (Inr []) now =
       \<lparr> sa_symbol = symbol, sa_status = ''error'',
         sa_message = Some (Literal ''No data available''),
         sa_agent = None, sa_timestamp = None, sa_analysis = None,
         sa_priority = None, sa_final_signal = None \<rparr>
   \<and> (bars \<noteq> [] \<and> analyze_orderflow bars = Inl e \<longrightarrow>
        analyze_symbol symbol (Inr bars) now =
          \<lparr> sa_symbol = symbol, sa_status = ''error'', sa_message = Some (StrOf e),
            sa_agent = Some ''tape_reader'', sa_timestamp = None, sa_analysis = None,
            sa_priority = None, sa_final_signal = None \<rparr>)
   \<and> (length cd < lookback \<longrightarrow> detect_delta_exhaustion cd price lookback = Inr None)"
  by (auto simp: analyze_orderflow_def estimate_delta_from_ohlcv_def series_std_def
      analyze_symbol_def detect_delta_exhaustion_def)

text \<open>
  A frame of a single bar: the analysis raises \<open>ValueError\<close> (the standard deviation of
  one value is undefined) and the caller reports it; a three-entry series against a
  lookback of ten gives no exhaustion signal.
\<close>

theorem insufficient_data_is_reported_by_the_caller_witness:
  "analyze_orderflow [\<lparr> timestamp = 0, bar_open = 100, high = 102, low = 99, close = 101,
                        volume = 1000 \<rparr>] = Inl ValueError
   \<and> analyze_symbol ''SPY'' (Inr [\<lparr> timestamp = 0, bar_open = 100, high = 102, low = 99,
                       close = 101, volume = 1000 \<rparr>]) ''2026-01-01T00:00:00'' =
       \<lparr> sa_symbol = ''SPY'', sa_status = ''error'', sa_message = Some (StrOf ValueError),
         sa_agent = Some ''tape_reader'', sa_timestamp = None, sa_analysis = None,
         sa_priority = None, sa_final_signal = None \<rparr>
   \<and> detect_delta_exhaustion [1, 2, 3] [100, 101, 102] 10 = Inr None"
proof -
  let ?b = "\<lparr> timestamp = 0, bar_open = 100, high = 102, low = 99, close = 101,
              volume = 1000 \<rparr>"
  have r: "analyze_orderflow [?b] = Inl ValueError"
    by (simp add: analyze_orderflow_def estimate_delta_from_ohlcv_def series_std_def)
  show ?thesis
    using r insufficient_data_is_reported_by_the_caller
            [of "''SPY''" "''2026-01-01T00:00:00''" "[?b]" ValueError "[1, 2, 3]" 10
                "[100, 101, 102]"]
    by simp
qed


section \<open>Properties of the volume profile builder\<close>

subsection \<open>Shape of the arrays\<close>

declare expand_value_area.simps [simp del]

lemma length_add_to_slice: "length (add_to_slice s e1 x a) = length a"
  by (simp add: add_to_slice_def)

lemma length_spread_volume: "length (spread_volume vp sev) = length vp"
  by (simp add: spread_volume_def Let_def length_add_to_slice split: prod.splits)

lemma length_foldl_spread_volume: "length (foldl spread_volume vp xs) = length vp"
  by (induction xs arbitrary: vp) (simp_all add: length_spread_volume)

lemma length_volume_by_bin: "length (volume_by_bin bars bins pm bs) = bins"
  by (simp add: volume_by_bin_def Let_def length_foldl_spread_volume)

lemma argmax_from_bound: "best < i \<Longrightarrow> argmax_from best bv i xs < i + length xs"
proof (induction xs arbitrary: best bv i)
  case Nil
  then show ?case by simp
next
  case (Cons x xs)
  have a: "argmax_from i x (Suc i) xs < Suc i + length xs"
    by (rule Cons.IH) simp
  have b: "argmax_from best bv (Suc i) xs < Suc i + length xs"
    by (rule Cons.IH) (use Cons.prems in simp)
  show ?case using a b by simp
qed

lemma argmax_in_range:
  assumes "a \<noteq> []"
  shows "\<exists>k. argmax a = Inr k \<and> k < length a"
proof (cases a)
  case Nil
  with assms show ?thesis by simp
next
  case (Cons x xs)
  have "argmax_from 0 x 1 xs < 1 + length xs"
    by (rule argmax_from_bound) simp
  then show ?thesis using Cons by (simp add: argmax_def)
qed

lemma expand_value_area_bounds:
  assumes "lo \<le> hi" and "hi < length vp"
    and "expand_value_area vp t c lo hi = (lo', hi')"
  shows "lo' \<le> lo \<and> hi \<le> hi' \<and> hi' < length vp"
  using assms
proof (induction vp t c lo hi rule: expand_value_area.induct)
  case (1 vp t c lo hi)
  define va where "va = (if hi + 1 < length vp then vp ! (hi + 1) else 0)"
  define vb where "vb = (if 1 \<le> lo then vp ! (lo - 1) else 0)"
  have unfold: "expand_value_area vp t c lo hi =
      (if c < t then
         if va \<ge> vb \<and> hi + 1 < length vp then expand_value_area vp t (c + va) lo (hi + 1)
         else if 1 \<le> lo then expand_value_area vp t (c + vb) (lo - 1) hi
         else (lo, hi)
       else (lo, hi))"
    by (subst expand_value_area.simps) (simp add: va_def vb_def Let_def)
  show ?case
  proof (cases "c < t")
    case stop: False
    have "expand_value_area vp t c lo hi = (lo, hi)"
      by (subst unfold) (use stop in auto)
    then show ?thesis using "1.prems" by simp
  next
    case run: True
    show ?thesis
    proof (cases "va \<ge> vb \<and> hi + 1 < length vp")
      case up: True
      have "expand_value_area vp t c lo hi = expand_value_area vp t (c + va) lo (hi + 1)"
        by (subst unfold) (use run up in auto)
      then have r: "expand_value_area vp t (c + va) lo (hi + 1) = (lo', hi')"
        using "1.prems"(3) by simp
      have "lo' \<le> lo \<and> hi + 1 \<le> hi' \<and> hi' < length vp"
        using "1.IH"(1)[OF run va_def vb_def up _ _ r] "1.prems"(1) up by simp
      then show ?thesis by simp
    next
      case noup: False
      show ?thesis
      proof (cases "1 \<le> lo")
        case down: True
        have "expand_value_area vp t c lo hi = expand_value_area vp t (c + vb) (lo - 1) hi"
          by (subst unfold) (use run noup down in auto)
        then have r: "expand_value_area vp t (c + vb) (lo - 1) hi = (lo', hi')"
          using "1.prems"(3) by simp
        have "lo' \<le> lo - 1 \<and> hi \<le> hi' \<and> hi' < length vp"
          using "1.IH"(2)[OF run va_def vb_def noup down _ _ r] "1.prems"(1,2) by simp
        then show ?thesis by auto
      next
        case nodown: False
        have "expand_value_area vp t c lo hi = (lo, hi)"
          by (subst unfold) (use run noup nodown in auto)
        then show ?thesis using "1.prems" by simp
      qed
    qed
  qed
qed

lemma linspace_nth:
  "i < num \<Longrightarrow> linspace a b num ! i = a + real i * ((b - a) / real (num - 1))"
  by (simp add: linspace_def)

lemma value_area_structure:
  assumes "bars \<noteq> []" and "0 < bins"
  shows "\<exists>r low_bin poc_bin high_bin.
           build_volume_profile bars bins value_area_pct = Inr r
         \<and> low_bin \<le> poc_bin \<and> poc_bin \<le> high_bin \<and> high_bin < bins
         \<and> (let price_min = Min (set (map low bars));
                 price_max = Max (set (map high bars));
                 step = (price_max - price_min) / real bins;
                 bin_size = (if price_max - price_min = 0 then price_min * 0.01
                             else price_max - price_min) / real bins
             in val r = price_min + real low_bin * step
              \<and> poc r = price_min + real poc_bin * step + bin_size / 2
              \<and> vah r = price_min + real high_bin * step + bin_size)"
proof -
  define pm where "pm = Min (set (map low bars))"
  define px where "px = Max (set (map high bars))"
  define bs where "bs = (if px - pm = 0 then pm * 0.01 else px - pm) / real bins"
  define pbins where "pbins = linspace pm px (bins + 1)"
  define vp where "vp = volume_by_bin bars bins pm bs"
  have len: "length vp = bins" by (simp add: vp_def length_volume_by_bin)
  then have "vp \<noteq> []" using assms(2) by auto
  then obtain pb where pb: "argmax vp = Inr pb" "pb < bins"
    using argmax_in_range[of vp] len by auto
  obtain lo hi where ex: "expand_value_area vp (sum_list vp * value_area_pct) (vp ! pb) pb pb = (lo, hi)"
    by (cases "expand_value_area vp (sum_list vp * value_area_pct) (vp ! pb) pb pb") auto
  have b: "lo \<le> pb" "pb \<le> hi" "hi < bins"
    using expand_value_area_bounds[OF _ _ ex] pb(2) len by auto
  have cva: "calculate_value_area vp pbins bs value_area_pct = Inr (pbins ! hi + bs, pbins ! lo)"
    by (simp add: calculate_value_area_def Let_def pb(1) ex)
  have nth: "pbins ! i = pm + real i * ((px - pm) / real bins)" if "i < bins" for i
    using that by (simp add: pbins_def linspace_nth)
  have run: "\<exists>r. build_volume_profile bars bins value_area_pct = Inr r
      \<and> val r = pbins ! lo \<and> poc r = pbins ! pb + bs / 2 \<and> vah r = pbins ! hi + bs"
    unfolding build_volume_profile_def Let_def
    unfolding pm_def[symmetric] px_def[symmetric]
    unfolding bs_def[symmetric] pbins_def[symmetric]
    unfolding vp_def[symmetric]
    using assms(1) by (simp add: pb(1) cva)
  then obtain r where r: "build_volume_profile bars bins value_area_pct = Inr r"
      "val r = pbins ! lo" "poc r = pbins ! pb + bs / 2" "vah r = pbins ! hi + bs"
    by blast
  have "val r = pm + real lo * ((px - pm) / real bins)"
       "poc r = pm + real pb * ((px - pm) / real bins) + bs / 2"
       "vah r = pm + real hi * ((px - pm) / real bins) + bs"
    using r b pb(2) nth by simp_all
  then show ?thesis
    unfolding Let_def pm_def[symmetric] px_def[symmetric] bs_def[symmetric]
    using r(1) b by blast
qed

subsection \<open>Value-area ordering\<close>

lemma price_extremes:
  assumes "bars \<noteq> []" and "\<forall>b \<in> set bars. low b \<le> high b"
  shows "Min (set (map low bars)) \<le> Max (set (map high bars))"
proof -
  obtain b where b: "b \<in> set bars" using assms(1) by (cases bars) auto
  have "Min (set (map low bars)) \<le> low b" using b by (intro Min_le) auto
  moreover have "low b \<le> high b" using assms(2) b by blast
  moreover have "high b \<le> Max (set (map high bars))" using b by (intro Max_ge) auto
  ultimately show ?thesis by linarith
qed

lemma price_min_nonneg:
  assumes "bars \<noteq> []" and "\<forall>b \<in> set bars. 0 \<le> low b"
  shows "0 \<le> Min (set (map low bars))"
proof -
  have "Min (set (map low bars)) \<in> set (map low bars)"
    using assms(1) by (intro Min_in) auto
  then show ?thesis using assms(2) by auto
qed

text \<open>
  Claim C4. Let every bar of the window be a bar of the data model: its low is not
  negative and not above its high. Then, for every positive bin count and every
  value-area fraction, \<open>build_volume_profile\<close> returns a profile with
  \<open>val \<le> poc \<le> vah\<close>. This covers the empty window (all three are 0) and the window of
  zero price range. For a non-empty window there are bins
  \<open>low_bin \<le> poc_bin \<le> high_bin < bins\<close> such that \<open>val\<close> is \<open>price_bins[low_bin]\<close>, the
  lower edge of the low bin, \<open>vah\<close> is \<open>price_bins[high_bin] + bin_size\<close>, the upper edge
  of the high bin, and \<open>poc\<close> is \<open>price_bins[poc_bin] + bin_size / 2\<close>, the midpoint of
  the POC bin, where \<open>price_bins[i] = price_min + i * (price_max - price_min) / bins\<close>.
  (A negative price in a window of zero range makes \<open>bin_size\<close> negative; the bar model
  excludes it.)
\<close>

theorem value_area_brackets_poc:
  assumes "\<forall>b \<in> set bars. 0 \<le> low b \<and> low b \<le> high b" and "0 < bins"
  shows "\<exists>r. build_volume_profile bars bins value_area_pct = Inr r
             \<and> val r \<le> poc r \<and> poc r \<le> vah r
             \<and> (bars = [] \<or>
                 (\<exists>low_bin poc_bin high_bin.
                    low_bin \<le> poc_bin \<and> poc_bin \<le> high_bin \<and> high_bin < bins
                  \<and> (let price_min = Min (set (map low bars));
                          price_max = Max (set (map high bars));
                          step = (price_max - price_min) / real bins;
                          bin_size = (if price_max - price_min = 0 then price_min * 0.01
                                      else price_max - price_min) / real bins
                      in val r = price_min + real low_bin * step
                       \<and> poc r = price_min + real poc_bin * step + bin_size / 2
                       \<and> vah r = price_min + real high_bin * step + bin_size)))"
proof (cases "bars = []")
  case True
  then show ?thesis by (simp add: build_volume_profile_def)
next
  case False
  define pm where "pm = Min (set (map low bars))"
  define px where "px = Max (set (map high bars))"
  define st where "st = (px - pm) / real bins"
  define bs where "bs = (if px - pm = 0 then pm * 0.01 else px - pm) / real bins"
  obtain r lo pb hi where r: "build_volume_profile bars bins value_area_pct = Inr r"
    and b: "lo \<le> pb" "pb \<le> hi" "hi < bins"
    and v: "val r = pm + real lo * st" "poc r = pm + real pb * st + bs / 2"
           "vah r = pm + real hi * st + bs"
    using value_area_structure[OF False assms(2), of value_area_pct]
    unfolding Let_def pm_def[symmetric] px_def[symmetric] st_def[symmetric] bs_def[symmetric]
    by blast
  have le: "pm \<le> px" and nn: "0 \<le> pm"
    using price_extremes[OF False] price_min_nonneg[OF False] assms(1)
    by (auto simp: pm_def px_def)
  have st: "0 \<le> st" using le assms(2) by (simp add: st_def)
  have bs: "0 \<le> bs" using le nn assms(2) by (simp add: bs_def)
  have "real lo * st \<le> real pb * st" "real pb * st \<le> real hi * st"
    using b st by (simp_all add: mult_right_mono)
  then have ord: "val r \<le> poc r" "poc r \<le> vah r"
    using v bs by simp_all
  show ?thesis
    unfolding Let_def pm_def[symmetric] px_def[symmetric] st_def[symmetric] bs_def[symmetric]
    using r ord b v by blast
qed

text \<open>Two bars between 100 and 104 over four bins.\<close>

theorem value_area_brackets_poc_witness:
  "\<exists>r. build_volume_profile
          [\<lparr> timestamp = 0, bar_open = 100, high = 104, low = 100, close = 103, volume = 10 \<rparr>,
           \<lparr> timestamp = 1, bar_open = 103, high = 103, low = 101, close = 102, volume = 6 \<rparr>]
          4 0.7 = Inr r
       \<and> val r \<le> poc r \<and> poc r \<le> vah r"
  using value_area_brackets_poc
          [of "[\<lparr> timestamp = 0, bar_open = 100, high = 104, low = 100, close = 103, volume = 10 \<rparr>,
                \<lparr> timestamp = 1, bar_open = 103, high = 103, low = 101, close = 102, volume = 6 \<rparr>]"
              4 "0.7"]
  by auto

subsection \<open>Volume conservation\<close>

lemma nth_add_to_slice:
  "i < length a \<Longrightarrow>
   add_to_slice s e1 x a ! i = (if s \<le> int i \<and> int i < e1 then a ! i + x else a ! i)"
  by (simp add: add_to_slice_def nth_enumerate_eq)

lemma spread_first_bin_only:
  assumes "0 < i" and "i < length vp"
  shows "spread_volume vp (0, 0, v) ! i = vp ! i"
  using assms by (simp add: spread_volume_def nth_add_to_slice)

lemma foldl_spread_first_bin_only:
  assumes "\<forall>sev \<in> set xs. fst sev = 0 \<and> fst (snd sev) = 0" and "0 < i" and "i < length vp"
  shows "foldl spread_volume vp xs ! i = vp ! i"
  using assms
proof (induction xs arbitrary: vp)
  case Nil
  then show ?case by simp
next
  case (Cons sev xs)
  obtain v where sev: "sev = (0, 0, v)"
    using Cons.prems(1) by (cases sev) auto
  have "foldl spread_volume (spread_volume vp sev) xs ! i = spread_volume vp sev ! i"
    using Cons.prems by (intro Cons.IH) (simp_all add: length_spread_volume)
  then show ?case
    using Cons.prems(2,3) by (simp add: sev spread_first_bin_only)
qed

lemma profile_dict_constant_key:
  assumes "\<forall>i < n. price_bins ! i = p" and "0 < n"
  shows "profile_dict price_bins bin_size vp n = [(p + bin_size / 2, vp ! (n - 1))]"
  using assms
proof (induction n)
  case 0
  then show ?case by simp
next
  case (Suc n)
  show ?case
  proof (cases "n = 0")
    case True
    then show ?thesis using Suc.prems by (simp add: profile_dict_def)
  next
    case False
    then have "profile_dict price_bins bin_size vp n = [(p + bin_size / 2, vp ! (n - 1))]"
      using Suc by simp
    then show ?thesis using Suc.prems by (simp add: profile_dict_def)
  qed
qed

lemma degenerate_bin_index:
  "0 < bins \<Longrightarrow> clip (astype_int_quotient 0 d) 0 (int bins - 1) = 0"
  by (simp add: clip_def astype_int_quotient_def py_int_def)

lemma degenerate_window_profile:
  assumes "bars \<noteq> []" and "\<forall>b \<in> set bars. low b = p \<and> high b = p" and "2 \<le> bins"
  shows "\<exists>r. build_volume_profile bars bins value_area_pct = Inr r
             \<and> profile r = [(p + p * 0.01 / real bins / 2, 0)]"
proof -
  have lows: "low ` set bars = {p}" and highs: "high ` set bars = {p}"
    using assms(1,2) by (cases bars; auto)+
  have pm: "Min (set (map low bars)) = p" and px: "Max (set (map high bars)) = p"
    by (simp_all add: lows highs)
  define bs where "bs = p * 0.01 / real bins"
  define vp where "vp = volume_by_bin bars bins p bs"
  have len: "length vp = bins" by (simp add: vp_def length_volume_by_bin)
  have idx: "clip (astype_int_quotient (low b - p) bs) 0 (int bins - 1) = 0"
            "clip (astype_int_quotient (high b - p) bs) 0 (int bins - 1) = 0"
    if "b \<in> set bars" for b
    using that assms(2,3) degenerate_bin_index[of bins bs] by simp_all
  have last0: "vp ! (bins - 1) = 0"
  proof -
    have "vp ! (bins - 1) = replicate bins (0::real) ! (bins - 1)"
      unfolding vp_def volume_by_bin_def Let_def
    proof (rule foldl_spread_first_bin_only)
      show "\<forall>sev \<in> set (zip (map (\<lambda>b. clip (astype_int_quotient (low b - p) bs) 0 (int bins - 1)) bars)
                 (zip (map (\<lambda>b. clip (astype_int_quotient (high b - p) bs) 0 (int bins - 1)) bars)
                      (map volume bars))).
              fst sev = 0 \<and> fst (snd sev) = 0"
        using idx by (auto simp: set_zip)
      show "0 < bins - 1" using assms(3) by simp
      show "bins - 1 < length (replicate bins (0::real))" using assms(3) by simp
    qed
    then show ?thesis using assms(3) by simp
  qed
  obtain r where r: "build_volume_profile bars bins value_area_pct = Inr r"
    using value_area_structure[OF assms(1), of bins value_area_pct] assms(3) by auto
  have keys: "\<forall>i < bins. linspace p p (bins + 1) ! i = p"
    by (simp add: linspace_nth)
  have "profile r = profile_dict (linspace p p (bins + 1)) bs vp bins"
    using r assms(1)
    unfolding build_volume_profile_def Let_def pm px bs_def vp_def
    by (auto split: sum.splits prod.splits)
  also have "\<dots> = [(p + bs / 2, vp ! (bins - 1))]"
    using profile_dict_constant_key[OF keys] assms(3) by simp
  finally show ?thesis using r last0 by (simp add: bs_def)
qed

text \<open>
  Claim C3. The claim fails on the code for a window of zero price range. One bar with
  \<open>low = high = 100\<close> and volume 10, with the default 100 bins: line 62 sets the range to
  1 and the bin size to 0.01, but line 66 still builds \<open>price_bins\<close> from \<open>price_min\<close> to
  \<open>price_max\<close>, so all 101 edges are 100 and all 100 keys of the \<open>profile\<close> dictionary
  are 100.005. The dictionary keeps one entry, with the volume of the last bin, which is
  0; the whole volume sits in bin 0 of the array and is lost from the profile. The
  bucket volumes sum to 0, the bar volumes to 10.
\<close>

theorem degenerate_window_loses_volume:
  "map_sum id (\<lambda>r. (profile r, sum_list (map snd (profile r))))
     (build_volume_profile
        [\<lparr> timestamp = 0, bar_open = 100, high = 100, low = 100, close = 100, volume = 10 \<rparr>]
        100 0.70)
   = Inr ([(100.005, 0)], 0)
   \<and> sum_list (map volume
        [\<lparr> timestamp = 0, bar_open = 100, high = 100, low = 100, close = 100, volume = 10 \<rparr>])
     = 10"
  using degenerate_window_profile
          [of "[\<lparr> timestamp = 0, bar_open = 100, high = 100, low = 100, close = 100,
                 volume = 10 \<rparr>]" 100 100 "0.70"]
  by auto

text \<open>
  Where the price range is not zero the bucket volumes do add up to the bar volumes, for
  every positive bin count (the volumes need not even be non-negative): the edges are
  distinct, so the dictionary has one entry per bin, and each bar adds its volume
  divided by the number of touched bins to exactly that many bins.
\<close>

lemma sum_list_add_to_slice:
  assumes "s \<le> e1" and "e1 \<le> length a"
  shows "sum_list (add_to_slice (int s) (int e1) x a) = sum_list a + real (e1 - s) * x"
proof -
  let ?n = "length a"
  have set_eq: "{i \<in> {0..<?n}. s \<le> i \<and> i < e1} = {s..<e1}"
    using assms by auto
  have "sum_list (add_to_slice (int s) (int e1) x a)
          = (\<Sum>i = 0..<?n. add_to_slice (int s) (int e1) x a ! i)"
    by (simp add: sum_list_sum_nth length_add_to_slice)
  also have "\<dots> = (\<Sum>i = 0..<?n. a ! i + (if s \<le> i \<and> i < e1 then x else 0))"
    by (rule sum.cong) (simp_all add: nth_add_to_slice)
  also have "\<dots> = (\<Sum>i = 0..<?n. a ! i) + (\<Sum>i = 0..<?n. if s \<le> i \<and> i < e1 then x else 0)"
    by (simp add: sum.distrib)
  also have "(\<Sum>i = 0..<?n. if s \<le> i \<and> i < e1 then x else 0)
               = (\<Sum>i \<in> {i \<in> {0..<?n}. s \<le> i \<and> i < e1}. x)"
    by (rule sum.inter_filter[symmetric]) simp
  also have "\<dots> = real (e1 - s) * x"
    unfolding set_eq by simp
  finally show ?thesis by (simp add: sum_list_sum_nth)
qed

lemma sum_list_spread_volume:
  assumes "0 \<le> s" and "s \<le> e" and "e < int (length vp)"
  shows "sum_list (spread_volume vp (s, e, v)) = sum_list vp + v"
proof -
  obtain s' e' where n: "s = int s'" "e = int e'"
    using assms(1,2) by (metis nonneg_int_cases order_trans)
  have le: "s' \<le> Suc e'" "Suc e' \<le> length vp" using assms n by simp_all
  define k where "k = real (Suc e' - s')"
  have k: "real_of_int (e - s + 1) = k"
    using le n by (simp add: k_def of_nat_diff)
  have "k \<noteq> 0" using le assms n by (simp add: k_def)
  then have kk: "k * (v / k) = v" by simp
  have "spread_volume vp (s, e, v) = add_to_slice (int s') (int (Suc e')) (v / k) vp"
    unfolding spread_volume_def Let_def prod.case k by (simp add: n add.commute)
  then have "sum_list (spread_volume vp (s, e, v)) = sum_list vp + k * (v / k)"
    unfolding k_def by (simp only: sum_list_add_to_slice[OF le])
  then show ?thesis by (simp only: kk)
qed

lemma sum_list_foldl_spread_volume:
  assumes "\<forall>sev \<in> set xs. 0 \<le> fst sev \<and> fst sev \<le> fst (snd sev)
                            \<and> fst (snd sev) < int (length vp)"
  shows "sum_list (foldl spread_volume vp xs) = sum_list vp + sum_list (map (snd \<circ> snd) xs)"
  using assms
proof (induction xs arbitrary: vp)
  case Nil
  then show ?case by simp
next
  case (Cons sev xs)
  obtain s e v where sev: "sev = (s, e, v)" by (cases sev) auto
  have one: "sum_list (spread_volume vp sev) = sum_list vp + v"
    unfolding sev using Cons.prems by (intro sum_list_spread_volume) (simp_all add: sev)
  have "sum_list (foldl spread_volume (spread_volume vp sev) xs)
          = sum_list (spread_volume vp sev) + sum_list (map (snd \<circ> snd) xs)"
    using Cons.prems by (intro Cons.IH) (simp add: length_spread_volume)
  then show ?case using one by (simp add: sev comp_def)
qed

lemma py_int_mono:
  assumes "x \<le> y"
  shows "py_int x \<le> py_int y"
proof (cases "0 \<le> x")
  case True
  then show ?thesis using assms by (simp add: py_int_def floor_mono)
next
  case neg: False
  show ?thesis
  proof (cases "0 \<le> y")
    case True
    have "\<lceil>x\<rceil> \<le> 0" using neg by (simp add: ceiling_le_iff)
    moreover have "0 \<le> \<lfloor>y\<rfloor>" using True by simp
    moreover have "py_int x = \<lceil>x\<rceil>" "py_int y = \<lfloor>y\<rfloor>"
      using neg True by (simp_all add: py_int_def)
    ultimately show ?thesis by linarith
  next
    case False
    then show ?thesis using neg assms by (simp add: py_int_def ceiling_mono)
  qed
qed

lemma bin_index_range:
  assumes "0 < bins"
  shows "0 \<le> clip a 0 (int bins - 1)" and "clip a 0 (int bins - 1) < int bins"
  using assms by (simp_all add: clip_def)

lemma bin_index_mono:
  assumes "0 < d" and "x \<le> y"
  shows "clip (astype_int_quotient x d) 0 hi \<le> clip (astype_int_quotient y d) 0 hi"
proof -
  have "x / d \<le> y / d" using assms by (simp add: divide_right_mono)
  then have "py_int (x / d) \<le> py_int (y / d)" by (rule py_int_mono)
  then show ?thesis using assms(1) by (simp add: clip_def astype_int_quotient_def)
qed

lemma sum_list_volume_by_bin:
  assumes "0 < bins" and "0 < bs" and "\<forall>b \<in> set bars. low b \<le> high b"
  shows "sum_list (volume_by_bin bars bins pm bs) = sum_list (map volume bars)"
proof -
  let ?S = "map (\<lambda>b. clip (astype_int_quotient (low b - pm) bs) 0 (int bins - 1)) bars"
  let ?E = "map (\<lambda>b. clip (astype_int_quotient (high b - pm) bs) 0 (int bins - 1)) bars"
  let ?xs = "zip ?S (zip ?E (map volume bars))"
  have ok: "\<forall>sev \<in> set ?xs. 0 \<le> fst sev \<and> fst sev \<le> fst (snd sev)
                \<and> fst (snd sev) < int (length (replicate bins (0::real)))"
  proof
    fix sev assume "sev \<in> set ?xs"
    then obtain i where i: "i < length bars" and sev: "sev = ?xs ! i"
      by (auto simp: in_set_conv_nth)
    let ?b = "bars ! i"
    have b: "low ?b \<le> high ?b" using assms(3) i by simp
    have "fst sev = clip (astype_int_quotient (low ?b - pm) bs) 0 (int bins - 1)"
         "fst (snd sev) = clip (astype_int_quotient (high ?b - pm) bs) 0 (int bins - 1)"
      using i by (simp_all add: sev)
    then show "0 \<le> fst sev \<and> fst sev \<le> fst (snd sev)
                \<and> fst (snd sev) < int (length (replicate bins (0::real)))"
      using bin_index_range[OF assms(1)] bin_index_mono[OF assms(2), of "low ?b - pm" "high ?b - pm"] b
      by simp
  qed
  have "map (snd \<circ> snd) ?xs = map volume bars"
    by (induction bars) simp_all
  moreover have "sum_list (replicate bins (0::real)) = 0"
    by (simp add: sum_list_replicate)
  ultimately show ?thesis
    unfolding volume_by_bin_def Let_def
    using sum_list_foldl_spread_volume[OF ok] by simp
qed

lemma update_fresh_key:
  "k \<notin> fst ` set d \<Longrightarrow> AList.update k v d = d @ [(k, v)]"
  by (induction d) auto

lemma profile_dict_distinct_keys:
  assumes "\<forall>i < n. \<forall>j < n. i \<noteq> j \<longrightarrow> price_bins ! i \<noteq> price_bins ! j"
  shows "profile_dict price_bins bin_size vp n
           = map (\<lambda>i. (price_bins ! i + bin_size / 2, vp ! i)) [0..<n]"
  using assms
proof (induction n)
  case 0
  then show ?case by (simp add: profile_dict_def)
next
  case (Suc n)
  have ih: "profile_dict price_bins bin_size vp n
              = map (\<lambda>i. (price_bins ! i + bin_size / 2, vp ! i)) [0..<n]"
    using Suc by simp
  have fresh: "price_bins ! n + bin_size / 2 \<notin> fst ` set (profile_dict price_bins bin_size vp n)"
    using Suc.prems by (auto simp: ih)
  have "profile_dict price_bins bin_size vp (Suc n)
          = AList.update (price_bins ! n + bin_size / 2) (vp ! n)
              (profile_dict price_bins bin_size vp n)"
    by (simp add: profile_dict_def)
  then show ?case using update_fresh_key[OF fresh] ih by simp
qed

lemma volume_conserved_on_proper_range:
  assumes "bars \<noteq> []" and "\<forall>b \<in> set bars. low b \<le> high b" and "0 < bins"
    and "Min (set (map low bars)) < Max (set (map high bars))"
  shows "\<exists>r. build_volume_profile bars bins value_area_pct = Inr r
             \<and> sum_list (map snd (profile r)) = sum_list (map volume bars)"
proof -
  define pm where "pm = Min (set (map low bars))"
  define px where "px = Max (set (map high bars))"
  define bs where "bs = (px - pm) / real bins"
  define pbins where "pbins = linspace pm px (bins + 1)"
  define vp where "vp = volume_by_bin bars bins pm bs"
  have lt: "pm < px" using assms(4) by (simp add: pm_def px_def)
  have bs: "0 < bs" using lt assms(3) by (simp add: bs_def)
  have len: "length vp = bins" by (simp add: vp_def length_volume_by_bin)
  obtain r where r: "build_volume_profile bars bins value_area_pct = Inr r"
    using value_area_structure[OF assms(1,3), of value_area_pct] by auto
  have "profile r = profile_dict pbins bs vp bins"
    using r assms(1) lt
    unfolding build_volume_profile_def Let_def
    unfolding pm_def[symmetric] px_def[symmetric]
    by (auto simp: bs_def pbins_def vp_def split: sum.splits prod.splits)
  moreover have "\<forall>i < bins. \<forall>j < bins. i \<noteq> j \<longrightarrow> pbins ! i \<noteq> pbins ! j"
    using bs by (auto simp: pbins_def linspace_nth bs_def)
  ultimately have "profile r = map (\<lambda>i. (pbins ! i + bs / 2, vp ! i)) [0..<bins]"
    by (simp add: profile_dict_distinct_keys)
  then have "map snd (profile r) = map (\<lambda>i. vp ! i) [0..<length vp]"
    by (simp add: len comp_def)
  then have "sum_list (map snd (profile r)) = sum_list vp"
    by (simp add: map_nth)
  also have "\<dots> = sum_list (map volume bars)"
    unfolding vp_def by (rule sum_list_volume_by_bin[OF assms(3) bs assms(2)])
  finally show ?thesis using r by blast
qed


section \<open>Properties of the backtesting simulator\<close>

subsection \<open>One open position, no pyramiding\<close>

lemma one_open_reset:
  "open_positions (reset p) = []"
  by (simp add: reset_def)

lemma one_open_close_position:
  assumes "open_positions s = [] \<or> (\<exists>tr. open_positions s = [(symbol, tr)])"
  shows "open_positions (close_position p now symbol price why s) = []"
  using assms by (auto simp: close_position_def Let_def)

lemma one_open_check_stops:
  assumes "open_positions s = [] \<or> (\<exists>tr. open_positions s = [(symbol, tr)])"
  shows "open_positions (check_stops p now symbol b s) = []
         \<or> open_positions (check_stops p now symbol b s) = open_positions s"
proof (cases "map_of (open_positions s) symbol")
  case None
  then show ?thesis by (simp add: check_stops_def)
next
  case (Some tr)
  define s1 where "s1 = (if t_direction tr = ''long''
                    then (if low b \<le> stop_loss tr
                          then close_position p now symbol (stop_loss tr) ''stop_loss'' s else s)
                    else (if high b \<ge> stop_loss tr
                          then close_position p now symbol (stop_loss tr) ''stop_loss'' s else s))"
  have s1: "open_positions s1 = [] \<or> open_positions s1 = open_positions s"
    using one_open_close_position[OF assms] by (auto simp: s1_def)
  then have s1': "open_positions s1 = [] \<or> (\<exists>tr. open_positions s1 = [(symbol, tr)])"
    using assms by auto
  have cs: "check_stops p now symbol b s =
      (case take_profit tr of
         None \<Rightarrow> s1
       | Some tp \<Rightarrow>
           if tp = 0 then s1
           else if t_direction tr = ''long''
           then (if high b \<ge> tp then close_position p now symbol tp ''take_profit'' s1 else s1)
           else (if low b \<le> tp then close_position p now symbol tp ''take_profit'' s1 else s1))"
    by (simp only: check_stops_def Some option.case Let_def s1_def)
  have "check_stops p now symbol b s = s1
        \<or> (\<exists>price why. check_stops p now symbol b s = close_position p now symbol price why s1)"
    unfolding cs by (cases "take_profit tr") auto
  then show ?thesis using s1 one_open_close_position[OF s1'] by auto
qed

lemma execute_signal_ignored_while_open:
  "map_of (open_positions s) symbol \<noteq> None \<Longrightarrow> execute_signal p now symbol signal b s = Inr s"
  by (simp add: execute_signal_def)

lemma execute_signal_cases:
  assumes "execute_signal p now symbol signal b s = Inr s'"
  shows "s' = s
       \<or> (map_of (open_positions s) symbol = None
          \<and> (\<exists>tr c. s' = s \<lparr> open_positions := AList.update symbol tr (open_positions s),
                             capital := c, clock_reads := Suc (clock_reads s) \<rparr>))"
proof (cases "map_of (open_positions s) symbol = None")
  case False
  then show ?thesis using assms by (simp add: execute_signal_def)
next
  case True
  show ?thesis
    using assms unfolding execute_signal_def Let_def
    by (simp add: True split: sum.splits if_splits) blast+
qed

lemma one_open_execute_signal:
  assumes "open_positions s = [] \<or> (\<exists>tr. open_positions s = [(symbol, tr)])"
    and "execute_signal p now symbol signal b s = Inr s'"
  shows "open_positions s' = [] \<or> (\<exists>tr. open_positions s' = [(symbol, tr)])"
proof -
  consider "s' = s"
    | tr c where "map_of (open_positions s) symbol = None"
        "s' = s \<lparr> open_positions := AList.update symbol tr (open_positions s),
                  capital := c, clock_reads := Suc (clock_reads s) \<rparr>"
    using execute_signal_cases[OF assms(2)] by blast
  then show ?thesis
  proof cases
    case 1
    then show ?thesis using assms(1) by simp
  next
    case 2
    then have "open_positions s = []" using assms(1) by auto
    then show ?thesis using 2(2) by simp
  qed
qed

lemma one_open_update_equity:
  "open_positions (update_equity price s) = open_positions s"
  by (simp add: update_equity_def Let_def)

lemma visited_one_open:
  assumes "visited p now symbol s"
  shows "open_positions s = [] \<or> (\<exists>tr. open_positions s = [(symbol, tr)])"
  using assms
proof (induction rule: visited.induct)
  case after_reset
  then show ?case by (simp add: one_open_reset)
next
  case (after_check_stops s b)
  then show ?case using one_open_check_stops[of s symbol p now b] by auto
next
  case (after_execute_signal s signal b s')
  then show ?case using one_open_execute_signal by blast
next
  case (after_update_equity s price)
  then show ?case by (simp add: one_open_update_equity)
next
  case (after_final_close s price)
  then show ?case using one_open_close_position[of s symbol p now price] by simp
qed

lemma bar_step_visited:
  assumes "visited p now symbol s" and "bar_step p now symbol data strategy_func i s = Inr s'"
  shows "visited p now symbol s'"
proof -
  define b where "b = data ! i"
  define s1 where "s1 = check_stops p now symbol b s"
  define signal where "signal = (case strategy_func (take 60 (drop (i - 60) data)) of
                                   None \<Rightarrow> no_trade_signal | Some sg \<Rightarrow> sg)"
  have v1: "visited p now symbol s1"
    unfolding s1_def by (rule after_check_stops[OF assms(1)])
  obtain s2 where s2: "(if sig_action signal = Some ''BUY'' \<or> sig_action signal = Some ''SELL''
            then execute_signal p now symbol signal b s1 else Inr s1) = Inr s2"
      and s': "s' = update_equity (close b) s2"
    using assms(2)
    unfolding bar_step_def Let_def b_def[symmetric] s1_def[symmetric] signal_def[symmetric]
    by (auto split: sum.splits)
  have "visited p now symbol s2"
  proof (cases "sig_action signal = Some ''BUY'' \<or> sig_action signal = Some ''SELL''")
    case True
    then have "execute_signal p now symbol signal b s1 = Inr s2" using s2 by simp
    then show ?thesis using after_execute_signal[OF v1 True] by blast
  next
    case False
    then show ?thesis using s2 v1 by simp
  qed
  then show ?thesis unfolding s' by (rule after_update_equity)
qed

lemma backtest_loop_visited:
  assumes "visited p now symbol s"
    and "backtest_loop p now symbol data strategy_func idxs s = Inr s'"
  shows "visited p now symbol s'"
  using assms
proof (induction idxs arbitrary: s)
  case Nil
  then show ?case by simp
next
  case (Cons i rest)
  then obtain s1 where s1: "bar_step p now symbol data strategy_func i s = Inr s1"
      and r: "backtest_loop p now symbol data strategy_func rest s1 = Inr s'"
    by (auto split: sum.splits)
  have "visited p now symbol s1" using bar_step_visited[OF Cons.prems(1) s1] .
  then show ?case using Cons.IH r by blast
qed

lemma run_state_visited:
  assumes "run_state p now symbol data0 strategy_func start_ms end_ms = Inr s"
  shows "visited p now symbol s"
proof -
  define data where "data = (case end_ms of
       None \<Rightarrow> (case start_ms of None \<Rightarrow> data0 | Some t \<Rightarrow> filter (\<lambda>b. timestamp b \<ge> t) data0)
     | Some t \<Rightarrow> filter (\<lambda>b. timestamp b \<le> t)
         (case start_ms of None \<Rightarrow> data0 | Some t \<Rightarrow> filter (\<lambda>b. timestamp b \<ge> t) data0))"
  obtain s1 where l: "backtest_loop p now symbol data strategy_func [60..<length data] (reset p) = Inr s1"
    and s: "s = (if map_of (open_positions s1) symbol \<noteq> None
                 then close_position p now symbol (close (last data)) ''end_of_backtest'' s1
                 else s1)"
    using assms unfolding run_state_def Let_def data_def[symmetric]
    by (auto split: if_splits sum.splits)
  have "visited p now symbol s1"
    using backtest_loop_visited[OF after_reset l] .
  then show ?thesis unfolding s by (auto intro: after_final_close)
qed

text \<open>
  Claim C8. In every state the engine passes through during a call of \<open>run_backtest\<close>
  for \<open>symbol\<close> (\<open>visited\<close>; by \<open>bar_step_visited\<close>, \<open>backtest_loop_visited\<close> and
  \<open>run_state_visited\<close> these include the state after every bar and the final state),
  \<open>open_positions\<close> is empty or holds exactly one entry, for \<open>symbol\<close>. And in any state
  with a position open for \<open>symbol\<close>, \<open>_execute_signal\<close> returns at line 180 for every
  signal and bar: the whole state (capital, open position, trade list, equity history)
  is unchanged.
\<close>

theorem one_open_position_no_pyramiding:
  assumes "visited p now symbol s"
  shows "(open_positions s = [] \<or> (\<exists>tr. open_positions s = [(symbol, tr)]))
       \<and> (map_of (open_positions s) symbol \<noteq> None \<longrightarrow>
            execute_signal p now symbol signal b s = Inr s)"
  using visited_one_open[OF assms] execute_signal_ignored_while_open by blast

text \<open>
  The state after a BUY at a close of 100 with the default parameters (898 units at
  100.05): it is visited, holds one position, and a SELL signal on the next bar leaves
  it as it is.
\<close>

theorem one_open_position_no_pyramiding_witness:
  "(\<exists>tr. open_positions
      \<lparr> capital = 99910.1551, equity_history = [100000], trades = [],
        open_positions =
          [(''SPY'', \<lparr> t_symbol = ''SPY'', entry_time = 0, entry_price = 100.05,
                      t_direction = ''long'', units = 898, stop_loss = 98.049,
                      take_profit = None, exit_time = None, exit_price = None, pnl = 0,
                      pnl_pct = Some 0, exit_reason = [] \<rparr>)],
        clock_reads = 1 \<rparr> = [(''SPY'', tr)])
   \<and> execute_signal default_params (\<lambda>k. k) ''SPY''
        \<lparr> sig_action = Some ''SELL'', sig_stop_loss = Some 103, sig_take_profit = None \<rparr>
        \<lparr> timestamp = 61, bar_open = 100, high = 102, low = 99, close = 101, volume = 1000 \<rparr>
        \<lparr> capital = 99910.1551, equity_history = [100000], trades = [],
          open_positions =
            [(''SPY'', \<lparr> t_symbol = ''SPY'', entry_time = 0, entry_price = 100.05,
                        t_direction = ''long'', units = 898, stop_loss = 98.049,
                        take_profit = None, exit_time = None, exit_price = None, pnl = 0,
                        pnl_pct = Some 0, exit_reason = [] \<rparr>)],
          clock_reads = 1 \<rparr>
      = Inr \<lparr> capital = 99910.1551, equity_history = [100000], trades = [],
          open_positions =
            [(''SPY'', \<lparr> t_symbol = ''SPY'', entry_time = 0, entry_price = 100.05,
                        t_direction = ''long'', units = 898, stop_loss = 98.049,
                        take_profit = None, exit_time = None, exit_price = None, pnl = 0,
                        pnl_pct = Some 0, exit_reason = [] \<rparr>)],
          clock_reads = 1 \<rparr>"
proof -
  let ?buy = "\<lparr> sig_action = Some ''BUY'', sig_stop_loss = None, sig_take_profit = None \<rparr>"
  let ?b = "\<lparr> timestamp = 60, bar_open = 100, high = 100, low = 100, close = 100,
              volume = 1000 \<rparr>"
  let ?S = "\<lparr> capital = 99910.1551, equity_history = [100000], trades = [],
        open_positions =
          [(''SPY'', \<lparr> t_symbol = ''SPY'', entry_time = 0, entry_price = 100.05,
                      t_direction = ''long'', units = 898, stop_loss = 98.049,
                      take_profit = None, exit_time = None, exit_price = None, pnl = 0,
                      pnl_pct = Some 0, exit_reason = [] \<rparr>)],
        clock_reads = 1 \<rparr>"
  have opened: "execute_signal default_params (\<lambda>k. k) ''SPY'' ?buy ?b (reset default_params)
                  = Inr ?S"
    by (simp add: execute_signal_def reset_def default_params_def py_int_def
        int_of_quotient_def Let_def)
  have v: "visited default_params (\<lambda>k. k) ''SPY'' ?S"
    by (rule after_execute_signal[OF after_reset _ opened]) simp
  show ?thesis
    using one_open_position_no_pyramiding[OF v,
        of "\<lparr> sig_action = Some ''SELL'', sig_stop_loss = Some 103, sig_take_profit = None \<rparr>"
           "\<lparr> timestamp = 61, bar_open = 100, high = 102, low = 99, close = 101,
              volume = 1000 \<rparr>"]
    by simp
qed

subsection \<open>Reproducibility\<close>

lemma untimed_fields:
  "t_symbol (untimed tr) = t_symbol tr" "entry_price (untimed tr) = entry_price tr"
  "t_direction (untimed tr) = t_direction tr" "units (untimed tr) = units tr"
  "stop_loss (untimed tr) = stop_loss tr" "take_profit (untimed tr) = take_profit tr"
  "exit_price (untimed tr) = exit_price tr" "pnl (untimed tr) = pnl tr"
  "pnl_pct (untimed tr) = pnl_pct tr" "exit_reason (untimed tr) = exit_reason tr"
  by (simp_all add: untimed_def)

lemma untimed_eq_fields:
  assumes "untimed a = untimed b"
  shows "t_direction a = t_direction b" "entry_price a = entry_price b"
    "units a = units b" "stop_loss a = stop_loss b" "take_profit a = take_profit b"
  using untimed_fields[of a] untimed_fields[of b] assms by simp_all

lemma untimed_closed:
  "untimed (tr \<lparr> exit_time := Some t, exit_price := a, pnl := b, pnl_pct := c,
                 exit_reason := d \<rparr>)
     = (untimed tr) \<lparr> exit_time := Some 0, exit_price := a, pnl := b, pnl_pct := c,
                      exit_reason := d \<rparr>"
  by (simp add: untimed_def)

lemma delete_map_values:
  "AList.delete k (map (\<lambda>(k, v). (k, f v)) xs) = map (\<lambda>(k, v). (k, f v)) (AList.delete k xs)"
  by (induction xs) auto

lemma update_map_values:
  "AList.update k (f v) (map (\<lambda>(k, v). (k, f v)) xs)
     = map (\<lambda>(k, v). (k, f v)) (AList.update k v xs)"
  by (induction xs) auto

lemma untimed_state_eq:
  "untimed_state s = untimed_state s' \<longleftrightarrow>
     capital s = capital s' \<and> equity_history s = equity_history s'
     \<and> map untimed (trades s) = map untimed (trades s')
     \<and> map (\<lambda>(k, tr). (k, untimed tr)) (open_positions s)
         = map (\<lambda>(k, tr). (k, untimed tr)) (open_positions s')"
  by (cases s; cases s') (auto simp: untimed_state_def)

lemma untimed_state_lookup:
  assumes "untimed_state s = untimed_state s'"
  shows "map_option untimed (map_of (open_positions s) symbol)
           = map_option untimed (map_of (open_positions s') symbol)"
proof -
  have "map_of (map (\<lambda>(k, tr). (k, untimed tr)) (open_positions s)) symbol
          = map_of (map (\<lambda>(k, tr). (k, untimed tr)) (open_positions s')) symbol"
    using assms by (simp add: untimed_state_eq)
  then show ?thesis by (simp add: map_of_map)
qed

lemma untimed_state_sum:
  assumes "untimed_state s = untimed_state s'"
  shows "sum_list (map (unrealized_pnl price \<circ> snd) (open_positions s))
           = sum_list (map (unrealized_pnl price \<circ> snd) (open_positions s'))"
proof -
  have u: "unrealized_pnl price \<circ> snd = (unrealized_pnl price \<circ> snd) \<circ> (\<lambda>(k, tr). (k, untimed tr))"
    by (auto simp: fun_eq_iff unrealized_pnl_def untimed_fields)
  have "map (unrealized_pnl price \<circ> snd) (open_positions s)
          = map (unrealized_pnl price \<circ> snd) (map (\<lambda>(k, tr). (k, untimed tr)) (open_positions s))"
    by (subst u) simp
  also have "\<dots> = map (unrealized_pnl price \<circ> snd) (map (\<lambda>(k, tr). (k, untimed tr)) (open_positions s'))"
    using assms by (simp add: untimed_state_eq)
  also have "\<dots> = map (unrealized_pnl price \<circ> snd) (open_positions s')"
    by (subst (2) u) simp
  finally show ?thesis by simp
qed

lemma close_position_untimed:
  assumes "untimed_state s = untimed_state s'"
  shows "untimed_state (close_position p now symbol price why s)
           = untimed_state (close_position p now' symbol price why s')"
proof (cases "map_of (open_positions s) symbol")
  case None
  then have "map_of (open_positions s') symbol = None"
    using untimed_state_lookup[OF assms, of symbol] by simp
  then show ?thesis using None assms by (simp add: close_position_def)
next
  case (Some tr)
  then have "map_option untimed (map_of (open_positions s') symbol) = Some (untimed tr)"
    using untimed_state_lookup[OF assms, of symbol] by simp
  then obtain tr' where Some': "map_of (open_positions s') symbol = Some tr'"
    and u: "untimed tr = untimed tr'"
    by (auto simp: map_option_eq_Some)
  note f = untimed_eq_fields[OF u]
  have e: "capital s = capital s'" "equity_history s = equity_history s'"
     "map untimed (trades s) = map untimed (trades s')"
     "map (\<lambda>(k, tr). (k, untimed tr)) (open_positions s)
         = map (\<lambda>(k, tr). (k, untimed tr)) (open_positions s')"
    using assms by (simp_all add: untimed_state_eq)
  show ?thesis
    unfolding close_position_def Some Some' option.case Let_def untimed_state_eq
    by (simp add: e f u untimed_closed delete_map_values[symmetric])
qed

lemma check_stops_untimed:
  assumes "untimed_state s = untimed_state s'"
  shows "untimed_state (check_stops p now symbol b s)
           = untimed_state (check_stops p now' symbol b s')"
proof (cases "map_of (open_positions s) symbol")
  case None
  then have "map_of (open_positions s') symbol = None"
    using untimed_state_lookup[OF assms, of symbol] by simp
  then show ?thesis using None assms by (simp add: check_stops_def)
next
  case (Some tr)
  then have "map_option untimed (map_of (open_positions s') symbol) = Some (untimed tr)"
    using untimed_state_lookup[OF assms, of symbol] by simp
  then obtain tr' where Some': "map_of (open_positions s') symbol = Some tr'"
    and u: "untimed tr = untimed tr'"
    by (auto simp: map_option_eq_Some)
  note f = untimed_eq_fields[OF u]
  define s1 where "s1 = (if t_direction tr = ''long''
                    then (if low b \<le> stop_loss tr
                          then close_position p now symbol (stop_loss tr) ''stop_loss'' s else s)
                    else (if high b \<ge> stop_loss tr
                          then close_position p now symbol (stop_loss tr) ''stop_loss'' s else s))"
  define s1' where "s1' = (if t_direction tr' = ''long''
                    then (if low b \<le> stop_loss tr'
                          then close_position p now' symbol (stop_loss tr') ''stop_loss'' s' else s')
                    else (if high b \<ge> stop_loss tr'
                          then close_position p now' symbol (stop_loss tr') ''stop_loss'' s' else s'))"
  have one: "untimed_state s1 = untimed_state s1'"
    unfolding s1_def s1'_def f[symmetric]
    using assms close_position_untimed[OF assms] by simp
  have cs: "check_stops p now symbol b s =
      (case take_profit tr of
         None \<Rightarrow> s1
       | Some tp \<Rightarrow>
           if tp = 0 then s1
           else if t_direction tr = ''long''
           then (if high b \<ge> tp then close_position p now symbol tp ''take_profit'' s1 else s1)
           else (if low b \<le> tp then close_position p now symbol tp ''take_profit'' s1 else s1))"
    by (simp only: check_stops_def Some option.case Let_def s1_def)
  have cs': "check_stops p now' symbol b s' =
      (case take_profit tr of
         None \<Rightarrow> s1'
       | Some tp \<Rightarrow>
           if tp = 0 then s1'
           else if t_direction tr = ''long''
           then (if high b \<ge> tp then close_position p now' symbol tp ''take_profit'' s1' else s1')
           else (if low b \<le> tp then close_position p now' symbol tp ''take_profit'' s1' else s1'))"
    by (simp only: check_stops_def Some' option.case Let_def s1'_def f)
  show ?thesis
    unfolding cs cs'
    using one close_position_untimed[OF one]
    by (cases "take_profit tr") simp_all
qed

lemma update_equity_untimed:
  assumes "untimed_state s = untimed_state s'"
  shows "untimed_state (update_equity price s) = untimed_state (update_equity price s')"
  using assms untimed_state_sum[OF assms, of price]
  by (simp add: untimed_state_eq update_equity_def Let_def)

lemma open_position_untimed:
  assumes "untimed_state s = untimed_state s'" and "untimed tr = untimed tr'"
  shows "untimed_state (s \<lparr> open_positions := AList.update symbol tr (open_positions s),
                            capital := c, clock_reads := k \<rparr>)
       = untimed_state (s' \<lparr> open_positions := AList.update symbol tr' (open_positions s'),
                             capital := c, clock_reads := k' \<rparr>)"
proof -
  have "map (\<lambda>(k, tr). (k, untimed tr)) (AList.update symbol tr (open_positions s))
      = map (\<lambda>(k, tr). (k, untimed tr)) (AList.update symbol tr' (open_positions s'))"
    using assms by (simp add: update_map_values[symmetric] untimed_state_eq)
  then show ?thesis using assms(1) by (simp add: untimed_state_eq)
qed

lemma execute_signal_untimed:
  assumes "untimed_state s = untimed_state s'"
  shows "map_sum id untimed_state (execute_signal p now symbol signal b s)
           = map_sum id untimed_state (execute_signal p now' symbol signal b s')"
proof (cases "map_of (open_positions s) symbol")
  case (Some tr)
  then have "map_of (open_positions s') symbol \<noteq> None"
    using untimed_state_lookup[OF assms, of symbol]
    by (cases "map_of (open_positions s') symbol") simp_all
  then show ?thesis using Some assms by (simp add: execute_signal_def)
next
  case None
  then have None': "map_of (open_positions s') symbol = None"
    using untimed_state_lookup[OF assms, of symbol] by simp
  have c: "capital s' = capital s" using assms by (simp add: untimed_state_eq)
  define buy where "buy = (sig_action signal = Some ''BUY'')"
  define entry where "entry = (if buy then close b * (1 + slippage p) else close b * (1 - slippage p))"
  define dir where "dir = (if buy then ''long'' else ''short'')"
  define stop where "stop = (case sig_stop_loss signal of
                      Some x \<Rightarrow> x
                    | None \<Rightarrow> entry * (if buy then 0.98 else 1.02))"
  define A where "A = (\<lambda>c::real. if \<bar>entry - stop\<bar> > 0
              then Inr (py_int (c * trade_risk p / \<bar>entry - stop\<bar>))
              else int_of_quotient (c * 0.1) entry)"
  define B where "B = (\<lambda>(c::real) units0.
                   if real_of_int units0 * entry * (1 + commission p) > c * 0.9
                   then int_of_quotient (c * 0.9) (entry * (1 + commission p))
                   else Inr units0)"
  define mk where "mk = (\<lambda>t units1. \<lparr> t_symbol = symbol, entry_time = t,
                              entry_price = entry, t_direction = dir, units = units1,
                              stop_loss = stop, take_profit = sig_take_profit signal,
                              exit_time = None, exit_price = None, pnl = 0,
                              pnl_pct = Some 0, exit_reason = [] \<rparr>)"
  have run: "execute_signal p nw symbol signal b t =
      (case A (capital t) of Inl e \<Rightarrow> Inl e
       | Inr units0 \<Rightarrow>
          (case B (capital t) units0 of Inl e \<Rightarrow> Inl e
           | Inr units1 \<Rightarrow>
               if units1 \<le> 0 then Inr t
               else Inr (t \<lparr> open_positions := AList.update symbol (mk (nw (clock_reads t)) units1)
                                                 (open_positions t),
                             capital := capital t - real_of_int units1 * entry * commission p,
                             clock_reads := Suc (clock_reads t) \<rparr>)))"
    if "map_of (open_positions t) symbol = None" for nw t
    unfolding execute_signal_def Let_def A_def B_def mk_def stop_def dir_def entry_def buy_def
    using that by simp
  have u: "untimed (mk t1 k) = untimed (mk t2 k)" for t1 t2 k
    by (simp add: mk_def untimed_def)
  show ?thesis
    unfolding run[OF None] run[OF None'] c
    using assms open_position_untimed[OF assms u]
    by (cases "A (capital s)"; simp; cases "B (capital s) (projr (A (capital s)))"; simp)
qed

lemma bar_step_untimed:
  assumes "untimed_state s = untimed_state s'"
  shows "map_sum id untimed_state (bar_step p now symbol data strategy_func i s)
           = map_sum id untimed_state (bar_step p now' symbol data strategy_func i s')"
proof -
  define b where "b = data ! i"
  define signal where "signal = (case strategy_func (take 60 (drop (i - 60) data)) of
                                   None \<Rightarrow> no_trade_signal | Some sg \<Rightarrow> sg)"
  define s1 where "s1 = check_stops p now symbol b s"
  define s1' where "s1' = check_stops p now' symbol b s'"
  have one: "untimed_state s1 = untimed_state s1'"
    unfolding s1_def s1'_def by (rule check_stops_untimed[OF assms])
  define r where "r = (if sig_action signal = Some ''BUY'' \<or> sig_action signal = Some ''SELL''
            then execute_signal p now symbol signal b s1 else Inr s1)"
  define r' where "r' = (if sig_action signal = Some ''BUY'' \<or> sig_action signal = Some ''SELL''
            then execute_signal p now' symbol signal b s1' else Inr s1')"
  have two: "map_sum id untimed_state r = map_sum id untimed_state r'"
    unfolding r_def r'_def using one execute_signal_untimed[OF one] by simp
  have st: "bar_step p now symbol data strategy_func i s =
      (case r of Inl e \<Rightarrow> Inl e | Inr s2 \<Rightarrow> Inr (update_equity (close b) s2))"
    by (simp only: bar_step_def Let_def b_def signal_def s1_def r_def)
  have st': "bar_step p now' symbol data strategy_func i s' =
      (case r' of Inl e \<Rightarrow> Inl e | Inr s2 \<Rightarrow> Inr (update_equity (close b) s2))"
    by (simp only: bar_step_def Let_def b_def signal_def s1'_def r'_def)
  show ?thesis
  proof (cases r)
    case (Inl e)
    then have "r' = Inl e" using two by (cases r') simp_all
    then show ?thesis unfolding st st' using Inl by simp
  next
    case (Inr t)
    then obtain t' where t': "r' = Inr t'" and u: "untimed_state t = untimed_state t'"
      using two by (cases r') simp_all
    show ?thesis
      unfolding st st' using Inr t' update_equity_untimed[OF u, of "close b"] by simp
  qed
qed

lemma backtest_loop_untimed:
  assumes "untimed_state s = untimed_state s'"
  shows "map_sum id untimed_state (backtest_loop p now symbol data strategy_func idxs s)
           = map_sum id untimed_state (backtest_loop p now' symbol data strategy_func idxs s')"
  using assms
proof (induction idxs arbitrary: s s')
  case Nil
  then show ?case by simp
next
  case (Cons i rest)
  have step: "map_sum id untimed_state (bar_step p now symbol data strategy_func i s)
           = map_sum id untimed_state (bar_step p now' symbol data strategy_func i s')"
    by (rule bar_step_untimed[OF Cons.prems])
  show ?case
  proof (cases "bar_step p now symbol data strategy_func i s")
    case (Inl e)
    then have "bar_step p now' symbol data strategy_func i s' = Inl e"
      using step by (cases "bar_step p now' symbol data strategy_func i s'") simp_all
    then show ?thesis using Inl by simp
  next
    case (Inr t)
    then obtain t' where t': "bar_step p now' symbol data strategy_func i s' = Inr t'"
      and u: "untimed_state t = untimed_state t'"
      using step by (cases "bar_step p now' symbol data strategy_func i s'") simp_all
    show ?thesis using Inr t' Cons.IH[OF u] by simp
  qed
qed

lemma run_state_untimed:
  "map_sum id untimed_state (run_state p now symbol data0 strategy_func start_ms end_ms)
     = map_sum id untimed_state (run_state p now' symbol data0 strategy_func start_ms end_ms)"
proof -
  define data where "data = (case end_ms of
       None \<Rightarrow> (case start_ms of None \<Rightarrow> data0 | Some t \<Rightarrow> filter (\<lambda>b. timestamp b \<ge> t) data0)
     | Some t \<Rightarrow> filter (\<lambda>b. timestamp b \<le> t)
         (case start_ms of None \<Rightarrow> data0 | Some t \<Rightarrow> filter (\<lambda>b. timestamp b \<ge> t) data0))"
  define l where "l = backtest_loop p now symbol data strategy_func [60..<length data] (reset p)"
  define l' where "l' = backtest_loop p now' symbol data strategy_func [60..<length data] (reset p)"
  have loop: "map_sum id untimed_state l = map_sum id untimed_state l'"
    unfolding l_def l'_def by (rule backtest_loop_untimed) simp
  have fin: "untimed_state (if map_of (open_positions t) symbol \<noteq> None
                 then close_position p now symbol price why t else t)
           = untimed_state (if map_of (open_positions t') symbol \<noteq> None
                 then close_position p now' symbol price why t' else t')"
    if u: "untimed_state t = untimed_state t'" for t t' price why
    using u untimed_state_lookup[OF u, of symbol] close_position_untimed[OF u]
    by (cases "map_of (open_positions t) symbol"; cases "map_of (open_positions t') symbol") simp_all
  have rs: "run_state p now symbol data0 strategy_func start_ms end_ms =
      (if length data < 100 then Inl ValueError
       else case l of Inl e \<Rightarrow> Inl e
        | Inr s \<Rightarrow> Inr (if map_of (open_positions s) symbol \<noteq> None
                 then close_position p now symbol (close (last data)) ''end_of_backtest'' s
                 else s))"
    unfolding run_state_def Let_def data_def l_def by (simp split: option.splits)
  have rs': "run_state p now' symbol data0 strategy_func start_ms end_ms =
      (if length data < 100 then Inl ValueError
       else case l' of Inl e \<Rightarrow> Inl e
        | Inr s \<Rightarrow> Inr (if map_of (open_positions s) symbol \<noteq> None
                 then close_position p now' symbol (close (last data)) ''end_of_backtest'' s
                 else s))"
    unfolding run_state_def Let_def data_def l'_def by (simp split: option.splits)
  show ?thesis
  proof (cases "length data < 100")
    case True
    then show ?thesis unfolding rs rs' by simp
  next
    case long: False
    show ?thesis
    proof (cases l)
      case (Inl e)
      then have "l' = Inl e" using loop by (cases l') simp_all
      then show ?thesis unfolding rs rs' using Inl by simp
    next
      case (Inr t)
      then obtain t' where t': "l' = Inr t'" and u: "untimed_state t = untimed_state t'"
        using loop by (cases l') simp_all
      show ?thesis
        unfolding rs rs'
        using long Inr t' fin[OF u, of "close (last data)" "''end_of_backtest''"] by simp
    qed
  qed
qed

lemma constant_buy_run_entry_time:
  "map_sum id (map entry_time \<circ> res_trades)
     (run_backtest default_params now ''SPY''
        (replicate 100 \<lparr> timestamp = 0, bar_open = 100, high = 100, low = 100, close = 100,
                          volume = 1000 \<rparr>)
        (\<lambda>window. Some \<lparr> sig_action = Some ''BUY'', sig_stop_loss = None,
                          sig_take_profit = None \<rparr>)
        None None)
   = Inr [now 0]"
  by code_simp

text \<open>
  Claim C5. The claim is what the simulator is meant to do, and the code breaks it:
  \<open>entry_time\<close> and \<open>exit_time\<close> of every trade are stamped with \<open>datetime.now()\<close>
  (lines 214 and 273) instead of the time of the bar, which is in scope at both places.
  The comment on line 214 (\<open>Would use bar timestamp in real data\<close>) says so itself, and
  lines 171 and 172 of the same function do pass the bar timestamps on. Two runs with the
  same parameters, symbol, bars and strategy therefore give trade lists that differ in
  those fields whenever the wall clock differs. Here: 100 equal bars and a strategy that
  always answers BUY, run under two clocks; the one trade has \<open>entry_time = now 0\<close>,
  which is 0 in the first run and 1000 in the second, so the trade lists are not equal.
\<close>

theorem backtest_trades_depend_on_wall_clock:
  "map_sum id res_trades
     (run_backtest default_params (\<lambda>k. k) ''SPY''
        (replicate 100 \<lparr> timestamp = 0, bar_open = 100, high = 100, low = 100, close = 100,
                          volume = 1000 \<rparr>)
        (\<lambda>window. Some \<lparr> sig_action = Some ''BUY'', sig_stop_loss = None,
                          sig_take_profit = None \<rparr>)
        None None)
   \<noteq> map_sum id res_trades
     (run_backtest default_params (\<lambda>k. k + 1000) ''SPY''
        (replicate 100 \<lparr> timestamp = 0, bar_open = 100, high = 100, low = 100, close = 100,
                          volume = 1000 \<rparr>)
        (\<lambda>window. Some \<lparr> sig_action = Some ''BUY'', sig_stop_loss = None,
                          sig_take_profit = None \<rparr>)
        None None)"
proof
  let ?run = "\<lambda>now. run_backtest default_params now ''SPY''
        (replicate 100 \<lparr> timestamp = 0, bar_open = 100, high = 100, low = 100, close = 100,
                          volume = 1000 \<rparr>)
        (\<lambda>window. Some \<lparr> sig_action = Some ''BUY'', sig_stop_loss = None,
                          sig_take_profit = None \<rparr>)
        None None"
  assume "map_sum id res_trades (?run (\<lambda>k. k)) = map_sum id res_trades (?run (\<lambda>k. k + 1000))"
  then have "map_sum id (map entry_time) (map_sum id res_trades (?run (\<lambda>k. k)))
           = map_sum id (map entry_time) (map_sum id res_trades (?run (\<lambda>k. k + 1000)))"
    by simp
  then have "map_sum id (map entry_time \<circ> res_trades) (?run (\<lambda>k. k))
           = map_sum id (map entry_time \<circ> res_trades) (?run (\<lambda>k. k + 1000))"
    by (simp add: sum.map_comp)
  then show False
    unfolding constant_buy_run_entry_time by simp
qed

text \<open>
  The defect is confined to the two stamps. Under any two wall clocks, two runs with the
  same constructor parameters, symbol, bar data, date bounds and strategy function either
  both raise the same error or both return, with identical equity curves and with trade
  lists that agree in every field other than \<open>entry_time\<close> and \<open>exit_time\<close> (an exit
  time is set in one run exactly when it is set in the other).
\<close>

lemma backtest_reproducible_up_to_clock:
  "map_sum id (\<lambda>r. (res_equity_curve r, map untimed (res_trades r)))
     (run_backtest p now symbol data strategy_func start_ms end_ms)
   = map_sum id (\<lambda>r. (res_equity_curve r, map untimed (res_trades r)))
     (run_backtest p now' symbol data strategy_func start_ms end_ms)"
proof -
  define rs where "rs = run_state p now symbol data strategy_func start_ms end_ms"
  define rs' where "rs' = run_state p now' symbol data strategy_func start_ms end_ms"
  have u: "map_sum id untimed_state rs = map_sum id untimed_state rs'"
    unfolding rs_def rs'_def by (rule run_state_untimed)
  show ?thesis
  proof (cases rs)
    case (Inl e)
    then have "rs' = Inl e" using u by (cases rs') simp_all
    then show ?thesis
      using Inl by (simp add: run_backtest_def rs_def[symmetric] rs'_def[symmetric])
  next
    case (Inr t)
    then obtain t' where t': "rs' = Inr t'" and e: "untimed_state t = untimed_state t'"
      using u by (cases rs') simp_all
    have "equity_history t = equity_history t'" "map untimed (trades t) = map untimed (trades t')"
      using e by (simp_all add: untimed_state_eq)
    then show ?thesis
      using Inr t'
      by (simp add: run_backtest_def rs_def[symmetric] rs'_def[symmetric] calculate_results_def)
  qed
qed

end
